theory Spec2Isabelle
  imports Complex_Main
begin

unbundle bit_operations_syntax

section \<open>Outcomes of a call\<close>

text \<open>
  The simulator is JavaScript. A call either returns a value or throws. The errors are
  named after the taxonomy of the specification; the message of the \<^verbatim>\<open>throw new Error(...)\<close>
  that each one stands for is given beside it. \<open>TypeError\<close> is the error of the JavaScript
  runtime itself (assignment to a \<^verbatim>\<open>const\<close> binding, a method call or property read on
  \<^verbatim>\<open>undefined\<close>). \<open>DivisionByZero\<close> belongs to the taxonomy, but no statement of the
  source throws it.

  Numbers are modelled as real numbers, so rounding is not part of the model. Two things
  JavaScript does without throwing have no counterpart over the reals and in dense lists:
  a division by zero yields \<^verbatim>\<open>NaN\<close> or an infinity, and a write beyond the end of an array
  grows the array and leaves holes. A call that reaches one of them has the outcome
  \<open>Unmodelled\<close>: the source goes on, with a value this model does not represent.
\<close>

datatype error =
    DivisionByZero
  | DimensionMismatch       \<comment> \<open>"Matrix dimensions don't match for multiplication"\<close>
  | InvalidDimension        \<comment> \<open>"Number of amplitudes must be a power of 2"\<close>
  | ZeroState               \<comment> \<open>"Cannot normalize zero vector ..."\<close>
  | GateSizeNotPowerOfTwo   \<comment> \<open>"Gate matrix size must be a power of 2"\<close>
  | GateArityMismatch       \<comment> \<open>"Number of target qubits must match gate size",
                                "Gate ... requires ... qubits, got ..."\<close>
  | UnknownGate             \<comment> \<open>"Unknown gate: ..."\<close>
  | MissingParameter        \<comment> \<open>"... gate requires ... parameter"\<close>
  | QubitIndexOutOfRange    \<comment> \<open>"Qubit index ... out of range ..."\<close>
  | TypeError

datatype 'a outcome = Return 'a | Throw error | Unmodelled

fun bind :: "'a outcome \<Rightarrow> ('a \<Rightarrow> 'b outcome) \<Rightarrow> 'b outcome" where
  "bind (Return x) f = f x"
| "bind (Throw e) f = Throw e"
| "bind Unmodelled f = Unmodelled"

section \<open>JavaScript's 32-bit integer operators\<close>

text \<open>
  The bitwise operators convert their operands to 32-bit integers (ToInt32), and the shift
  operators use the shift count modulo 32. Integers are modelled as \<open>int\<close> with the
  conversion written out.
\<close>

definition toInt32 :: "int \<Rightarrow> int" where
  "toInt32 x = signed_take_bit 31 x"

definition js_shr :: "int \<Rightarrow> int \<Rightarrow> int" where
  \<comment> \<open>\<^verbatim>\<open>x >> s\<close>\<close>
  "js_shr x s = drop_bit (nat (s mod 32)) (toInt32 x)"

definition js_shl :: "int \<Rightarrow> int \<Rightarrow> int" where
  \<comment> \<open>\<^verbatim>\<open>x << s\<close>\<close>
  "js_shl x s = toInt32 (push_bit (nat (s mod 32)) (toInt32 x))"

definition js_and :: "int \<Rightarrow> int \<Rightarrow> int" where
  \<comment> \<open>\<^verbatim>\<open>x & y\<close>\<close>
  "js_and x y = toInt32 x AND toInt32 y"

definition js_or :: "int \<Rightarrow> int \<Rightarrow> int" where
  \<comment> \<open>\<^verbatim>\<open>x | y\<close>\<close>
  "js_or x y = toInt32 x OR toInt32 y"

definition js_xor :: "int \<Rightarrow> int \<Rightarrow> int" where
  \<comment> \<open>\<^verbatim>\<open>x ^ y\<close>\<close>
  "js_xor x y = toInt32 x XOR toInt32 y"

definition js_not :: "int \<Rightarrow> int" where
  \<comment> \<open>\<^verbatim>\<open>~x\<close>\<close>
  "js_not x = NOT (toInt32 x)"

definition qubitBit :: "nat \<Rightarrow> int \<Rightarrow> nat \<Rightarrow> int" where
  \<comment> \<open>\<^verbatim>\<open>(i >> (numQubits - 1 - qubit)) & 1\<close>: qubit 0 is the most significant bit\<close>
  "qubitBit numQubits qubit i = js_and (js_shr (int i) (int numQubits - 1 - qubit)) 1"

section \<open>Complex arithmetic (quantum-core.js, class Complex)\<close>

record Complex_js =
  real_js :: real
  imag_js :: real

definition Complex_new :: "real \<Rightarrow> real \<Rightarrow> Complex_js" where
  "Complex_new re im = \<lparr>real_js = re, imag_js = im\<rparr>"

definition Complex_fromPolar :: "real \<Rightarrow> real \<Rightarrow> Complex_js" where
  "Complex_fromPolar magnitude angle =
     Complex_new (magnitude * cos angle) (magnitude * sin angle)"

definition Complex_add :: "Complex_js \<Rightarrow> Complex_js \<Rightarrow> Complex_js" where
  "Complex_add this other =
     Complex_new (real_js this + real_js other) (imag_js this + imag_js other)"

definition Complex_subtract :: "Complex_js \<Rightarrow> Complex_js \<Rightarrow> Complex_js" where
  "Complex_subtract this other =
     Complex_new (real_js this - real_js other) (imag_js this - imag_js other)"

definition Complex_multiply :: "Complex_js \<Rightarrow> Complex_js \<Rightarrow> Complex_js" where
  "Complex_multiply this other =
     Complex_new (real_js this * real_js other - imag_js this * imag_js other)
                 (real_js this * imag_js other + imag_js this * real_js other)"

text \<open>
  \<^verbatim>\<open>divide\<close> has no check and no \<^verbatim>\<open>throw\<close>: with a zero denominator JavaScript returns a
  Complex whose fields are \<^verbatim>\<open>NaN\<close> or infinite.
\<close>

definition Complex_divide :: "Complex_js \<Rightarrow> Complex_js \<Rightarrow> Complex_js outcome" where
  "Complex_divide this other =
     (let denominator = real_js other * real_js other + imag_js other * imag_js other
      in if denominator = 0 then Unmodelled
         else Return (Complex_new
                ((real_js this * real_js other + imag_js this * imag_js other) / denominator)
                ((imag_js this * real_js other - real_js this * imag_js other) / denominator)))"

definition Complex_magnitude :: "Complex_js \<Rightarrow> real" where
  "Complex_magnitude this = sqrt (real_js this * real_js this + imag_js this * imag_js this)"

definition atan2 :: "real \<Rightarrow> real \<Rightarrow> real" where
  \<comment> \<open>\<^verbatim>\<open>Math.atan2(y, x)\<close>, the angle of the point \<open>(x, y)\<close> in \<open>(-\<pi>, \<pi>]\<close>\<close>
  "atan2 y x =
     (if 0 < x then arctan (y / x)
      else if x < 0 then (if 0 \<le> y then arctan (y / x) + pi else arctan (y / x) - pi)
      else if 0 < y then pi / 2
      else if y < 0 then - (pi / 2)
      else 0)"

definition Complex_conjugate :: "Complex_js \<Rightarrow> Complex_js" where
  "Complex_conjugate this = Complex_new (real_js this) (- imag_js this)"

definition Complex_clone :: "Complex_js \<Rightarrow> Complex_js" where
  "Complex_clone this = Complex_new (real_js this) (imag_js this)"

definition to_complex :: "Complex_js \<Rightarrow> complex" where
  \<comment> \<open>the complex number a Complex object stands for\<close>
  "to_complex c = Complex (real_js c) (imag_js c)"

section \<open>Arrays\<close>

text \<open>
  Reading an array element that is not there gives \<^verbatim>\<open>undefined\<close>. The source then either
  calls a method on it, which throws a \<open>TypeError\<close>, or stores it, which this model does not
  represent. \<open>data[i][j]\<close> with \<open>data[i]\<close> missing throws in both cases. A write
  \<open>data[i][j] = v\<close> throws when \<open>data[i]\<close> is missing and grows the row when only \<open>j\<close> is
  out of range.
\<close>

type_synonym grid = "Complex_js list list"

definition element :: "'a list \<Rightarrow> nat \<Rightarrow> 'a outcome" where
  \<comment> \<open>\<^verbatim>\<open>xs[i]\<close>, used as the receiver or the argument of a method\<close>
  "element xs i = (if i < length xs then Return (xs ! i) else Throw TypeError)"

definition cell :: "grid \<Rightarrow> nat \<Rightarrow> nat \<Rightarrow> Complex_js outcome" where
  \<comment> \<open>\<^verbatim>\<open>data[i][j]\<close>, used as the receiver or the argument of a method\<close>
  "cell d i j = bind (element d i) (\<lambda>row. element row j)"

definition cell_value :: "grid \<Rightarrow> nat \<Rightarrow> nat \<Rightarrow> Complex_js outcome" where
  \<comment> \<open>\<^verbatim>\<open>data[i][j]\<close>, read to be stored\<close>
  "cell_value d i j =
     bind (element d i) (\<lambda>row. if j < length row then Return (row ! j) else Unmodelled)"

definition store :: "grid \<Rightarrow> nat \<Rightarrow> nat \<Rightarrow> Complex_js \<Rightarrow> grid outcome" where
  \<comment> \<open>\<^verbatim>\<open>data[i][j] = v\<close>\<close>
  "store d i j v =
     bind (element d i)
       (\<lambda>row. if j < length row then Return (d[i := row[j := v]]) else Unmodelled)"

definition grid_cells :: "nat \<Rightarrow> nat \<Rightarrow> (nat \<times> nat) list" where
  \<comment> \<open>the index pairs of \<^verbatim>\<open>for (i < r) for (j < c)\<close>, in the order the loops visit them\<close>
  "grid_cells r c = concat (map (\<lambda>i. map (\<lambda>j. (i, j)) [0..<c]) [0..<r])"

fun assign_cells ::
  "(nat \<times> nat) list \<Rightarrow> (nat \<Rightarrow> nat \<Rightarrow> Complex_js outcome) \<Rightarrow> grid \<Rightarrow> grid outcome" where
  \<comment> \<open>a loop nest whose body is \<^verbatim>\<open>data[i][j] = f(i, j)\<close>\<close>
  "assign_cells [] f d = Return d"
| "assign_cells ((i, j) # ps) f d =
     bind (f i j) (\<lambda>v. bind (store d i j v) (\<lambda>d'. assign_cells ps f d'))"

section \<open>Matrix algebra (quantum-core.js, class Matrix)\<close>

record Matrix =
  rows :: nat
  cols :: nat
  data :: grid

definition Matrix_new :: "nat \<Rightarrow> nat \<Rightarrow> Matrix" where
  \<comment> \<open>\<^verbatim>\<open>new Matrix(rows, cols)\<close>: every entry a fresh \<^verbatim>\<open>Complex(0, 0)\<close>\<close>
  "Matrix_new r c = \<lparr>rows = r, cols = c, data = replicate r (replicate c (Complex_new 0 0))\<rparr>"

fun identity_loop :: "nat list \<Rightarrow> grid \<Rightarrow> grid outcome" where
  "identity_loop [] d = Return d"
| "identity_loop (i # is) d =
     bind (store d i i (Complex_new 1 0)) (\<lambda>d'. identity_loop is d')"

definition Matrix_identity :: "nat \<Rightarrow> Matrix outcome" where
  "Matrix_identity sz =
     bind (identity_loop [0..<sz] (data (Matrix_new sz sz)))
       (\<lambda>d. Return ((Matrix_new sz sz)\<lparr>data := d\<rparr>))"

definition Matrix_fromArray :: "grid \<Rightarrow> Matrix outcome" where
  \<comment> \<open>the entries are Complex objects in every call of the source; \<^verbatim>\<open>arr[0].length\<close>
      throws on an empty array\<close>
  "Matrix_fromArray arr =
     (case arr of
        [] \<Rightarrow> Throw TypeError
      | row0 # _ \<Rightarrow> Return \<lparr>rows = length arr, cols = length row0, data = arr\<rparr>)"

fun multiply_sum ::
  "grid \<Rightarrow> grid \<Rightarrow> nat \<Rightarrow> nat \<Rightarrow> nat list \<Rightarrow> Complex_js \<Rightarrow> Complex_js outcome" where
  \<comment> \<open>the loop over \<open>k\<close> of \<^verbatim>\<open>multiply\<close>; \<open>acc\<close> is the variable \<^verbatim>\<open>sum\<close>\<close>
  "multiply_sum a b i j [] acc = Return acc"
| "multiply_sum a b i j (k # ks) acc =
     bind (cell a i k) (\<lambda>x. bind (cell b k j) (\<lambda>y.
       multiply_sum a b i j ks (Complex_add acc (Complex_multiply x y))))"

definition Matrix_multiply :: "Matrix \<Rightarrow> Matrix \<Rightarrow> Matrix outcome" where
  "Matrix_multiply this other =
     (if cols this \<noteq> rows other then Throw DimensionMismatch
      else bind (assign_cells (grid_cells (rows this) (cols other))
                   (\<lambda>i j. multiply_sum (data this) (data other) i j [0..<cols this]
                            (Complex_new 0 0))
                   (data (Matrix_new (rows this) (cols other))))
             (\<lambda>d. Return ((Matrix_new (rows this) (cols other))\<lparr>data := d\<rparr>)))"

fun transpose_loop :: "(nat \<times> nat) list \<Rightarrow> grid \<Rightarrow> grid \<Rightarrow> grid outcome" where
  \<comment> \<open>\<^verbatim>\<open>result.data[j][i] = this.data[i][j]\<close>\<close>
  "transpose_loop [] src res = Return res"
| "transpose_loop ((i, j) # ps) src res =
     bind (cell_value src i j) (\<lambda>v. bind (store res j i v) (\<lambda>res'.
       transpose_loop ps src res'))"

definition Matrix_transpose :: "Matrix \<Rightarrow> Matrix outcome" where
  "Matrix_transpose this =
     bind (transpose_loop (grid_cells (rows this) (cols this)) (data this)
             (data (Matrix_new (cols this) (rows this))))
       (\<lambda>d. Return ((Matrix_new (cols this) (rows this))\<lparr>data := d\<rparr>))"

definition Matrix_conjugate :: "Matrix \<Rightarrow> Matrix outcome" where
  "Matrix_conjugate this =
     bind (assign_cells (grid_cells (rows this) (cols this))
             (\<lambda>i j. bind (cell (data this) i j) (\<lambda>v. Return (Complex_conjugate v)))
             (data (Matrix_new (rows this) (cols this))))
       (\<lambda>d. Return ((Matrix_new (rows this) (cols this))\<lparr>data := d\<rparr>))"

definition Matrix_dagger :: "Matrix \<Rightarrow> Matrix outcome" where
  "Matrix_dagger this = bind (Matrix_conjugate this) Matrix_transpose"

fun isUnitary_loop :: "(nat \<times> nat) list \<Rightarrow> grid \<Rightarrow> grid \<Rightarrow> real \<Rightarrow> bool outcome" where
  "isUnitary_loop [] product identity tolerance = Return True"
| "isUnitary_loop ((i, j) # ps) product identity tolerance =
     bind (cell product i j) (\<lambda>p. bind (cell identity i j) (\<lambda>e.
       if Complex_magnitude (Complex_subtract p e) > tolerance then Return False
       else isUnitary_loop ps product identity tolerance))"

definition Matrix_isUnitary :: "Matrix \<Rightarrow> real \<Rightarrow> bool outcome" where
  "Matrix_isUnitary this tolerance =
     bind (Matrix_dagger this) (\<lambda>dag.
     bind (Matrix_multiply this dag) (\<lambda>product.
     bind (Matrix_identity (rows this)) (\<lambda>identity.
       isUnitary_loop (grid_cells (rows this) (cols this)) (data product) (data identity)
         tolerance)))"

section \<open>Gate library (class QuantumGates)\<close>

definition Hadamard :: "Matrix outcome" where
  "Hadamard =
     (let invSqrt2 = 1 / sqrt 2
      in Matrix_fromArray
           [[Complex_new invSqrt2 0, Complex_new invSqrt2 0],
            [Complex_new invSqrt2 0, Complex_new (- invSqrt2) 0]])"

definition PauliX :: "Matrix outcome" where
  "PauliX = Matrix_fromArray
     [[Complex_new 0 0, Complex_new 1 0],
      [Complex_new 1 0, Complex_new 0 0]]"

definition PauliY :: "Matrix outcome" where
  "PauliY = Matrix_fromArray
     [[Complex_new 0 0, Complex_new 0 (- 1)],
      [Complex_new 0 1, Complex_new 0 0]]"

definition PauliZ :: "Matrix outcome" where
  "PauliZ = Matrix_fromArray
     [[Complex_new 1 0, Complex_new 0 0],
      [Complex_new 0 0, Complex_new (- 1) 0]]"

definition Phase :: "Matrix outcome" where
  "Phase = Matrix_fromArray
     [[Complex_new 1 0, Complex_new 0 0],
      [Complex_new 0 0, Complex_new 0 1]]"

definition T_gate :: "Matrix outcome" where
  "T_gate =
     (let invSqrt2 = 1 / sqrt 2
      in Matrix_fromArray
           [[Complex_new 1 0, Complex_new 0 0],
            [Complex_new 0 0, Complex_new invSqrt2 invSqrt2]])"

definition RotationX :: "real \<Rightarrow> Matrix outcome" where
  "RotationX theta =
     (let c = cos (theta / 2); s = sin (theta / 2)
      in Matrix_fromArray
           [[Complex_new c 0, Complex_new 0 (- s)],
            [Complex_new 0 (- s), Complex_new c 0]])"

definition RotationY :: "real \<Rightarrow> Matrix outcome" where
  "RotationY theta =
     (let c = cos (theta / 2); s = sin (theta / 2)
      in Matrix_fromArray
           [[Complex_new c 0, Complex_new (- s) 0],
            [Complex_new s 0, Complex_new c 0]])"

definition RotationZ :: "real \<Rightarrow> Matrix outcome" where
  "RotationZ theta =
     (let exp1 = Complex_fromPolar 1 (- theta / 2); exp2 = Complex_fromPolar 1 (theta / 2)
      in Matrix_fromArray
           [[exp1, Complex_new 0 0],
            [Complex_new 0 0, exp2]])"

definition CNOT :: "Matrix outcome" where
  "CNOT = Matrix_fromArray
     [[Complex_new 1 0, Complex_new 0 0, Complex_new 0 0, Complex_new 0 0],
      [Complex_new 0 0, Complex_new 1 0, Complex_new 0 0, Complex_new 0 0],
      [Complex_new 0 0, Complex_new 0 0, Complex_new 0 0, Complex_new 1 0],
      [Complex_new 0 0, Complex_new 0 0, Complex_new 1 0, Complex_new 0 0]]"

definition CZ :: "Matrix outcome" where
  "CZ = Matrix_fromArray
     [[Complex_new 1 0, Complex_new 0 0, Complex_new 0 0, Complex_new 0 0],
      [Complex_new 0 0, Complex_new 1 0, Complex_new 0 0, Complex_new 0 0],
      [Complex_new 0 0, Complex_new 0 0, Complex_new 1 0, Complex_new 0 0],
      [Complex_new 0 0, Complex_new 0 0, Complex_new 0 0, Complex_new (- 1) 0]]"

definition CRZ :: "real \<Rightarrow> Matrix outcome" where
  "CRZ angle =
     (let expMinus = Complex_fromPolar 1 (- angle / 2);
          expPlus = Complex_fromPolar 1 (angle / 2)
      in Matrix_fromArray
           [[Complex_new 1 0, Complex_new 0 0, Complex_new 0 0, Complex_new 0 0],
            [Complex_new 0 0, Complex_new 1 0, Complex_new 0 0, Complex_new 0 0],
            [Complex_new 0 0, Complex_new 0 0, expMinus, Complex_new 0 0],
            [Complex_new 0 0, Complex_new 0 0, Complex_new 0 0, expPlus]])"

definition SWAP :: "Matrix outcome" where
  "SWAP = Matrix_fromArray
     [[Complex_new 1 0, Complex_new 0 0, Complex_new 0 0, Complex_new 0 0],
      [Complex_new 0 0, Complex_new 0 0, Complex_new 1 0, Complex_new 0 0],
      [Complex_new 0 0, Complex_new 1 0, Complex_new 0 0, Complex_new 0 0],
      [Complex_new 0 0, Complex_new 0 0, Complex_new 0 0, Complex_new 1 0]]"

definition set_entry :: "Matrix \<Rightarrow> nat \<Rightarrow> nat \<Rightarrow> Complex_js \<Rightarrow> Matrix outcome" where
  \<comment> \<open>\<^verbatim>\<open>matrix.data[i][j] = v\<close>\<close>
  "set_entry m i j v = bind (store (data m) i j v) (\<lambda>d. Return (m\<lparr>data := d\<rparr>))"

definition Toffoli :: "Matrix outcome" where
  "Toffoli =
     bind (Matrix_identity 8) (\<lambda>m0.
     bind (set_entry m0 6 6 (Complex_new 0 0)) (\<lambda>m1.
     bind (set_entry m1 6 7 (Complex_new 1 0)) (\<lambda>m2.
     bind (set_entry m2 7 6 (Complex_new 1 0)) (\<lambda>m3.
     set_entry m3 7 7 (Complex_new 0 0)))))"

definition Fredkin :: "Matrix outcome" where
  "Fredkin =
     bind (Matrix_identity 8) (\<lambda>m0.
     bind (set_entry m0 5 5 (Complex_new 0 0)) (\<lambda>m1.
     bind (set_entry m1 5 6 (Complex_new 1 0)) (\<lambda>m2.
     bind (set_entry m2 6 5 (Complex_new 1 0)) (\<lambda>m3.
     set_entry m3 6 6 (Complex_new 0 0)))))"

definition U :: "real \<Rightarrow> real \<Rightarrow> real \<Rightarrow> Matrix outcome" where
  "U theta phi lambda =
     (let c = cos (theta / 2); s = sin (theta / 2);
          expPhi = Complex_fromPolar 1 phi;
          expLambda = Complex_fromPolar 1 lambda;
          expPhiPlusLambda = Complex_fromPolar 1 (phi + lambda)
      in Matrix_fromArray
           [[Complex_new c 0, Complex_new 0 0],
            [Complex_new 0 0, Complex_new (c * real_js expLambda) (c * imag_js expLambda)],
            [Complex_new 0 0, Complex_new (s * real_js expPhi) (s * imag_js expPhi)],
            [Complex_new (- s) 0,
             Complex_new (c * real_js expPhiPlusLambda) (c * imag_js expPhiPlusLambda)]])"

definition Rk :: "real \<Rightarrow> Matrix outcome" where
  "Rk k =
     (let angle = 2 * pi / (2 powr k)
      in Matrix_fromArray
           [[Complex_new 1 0, Complex_new 0 0],
            [Complex_new 0 0, Complex_fromPolar 1 angle]])"

definition toUpperCase_char :: "char \<Rightarrow> char" where
  \<comment> \<open>a lower-case ASCII letter loses bit 5, that is 32; any other character stays\<close>
  "toUpperCase_char c =
     (let n = (of_char c :: nat)
      in if 97 \<le> n \<and> n \<le> 122
         then (case c of Char b0 b1 b2 b3 b4 b5 b6 b7 \<Rightarrow> Char b0 b1 b2 b3 b4 False b6 b7)
         else c)"

definition toUpperCase :: "string \<Rightarrow> string" where
  \<comment> \<open>\<^verbatim>\<open>gateName.toUpperCase()\<close> on ASCII names\<close>
  "toUpperCase s = map toUpperCase_char s"

definition getGate :: "string \<Rightarrow> real list \<Rightarrow> Matrix outcome" where
  \<comment> \<open>\<^verbatim>\<open>getGate(gateName, ...params)\<close>: the cases of the \<^verbatim>\<open>switch\<close>, in its order\<close>
  "getGate gateName params =
     (let g = toUpperCase gateName in
      if g = ''H'' \<or> g = ''HADAMARD'' then Hadamard
      else if g = ''X'' \<or> g = ''PAULI_X'' then PauliX
      else if g = ''Y'' \<or> g = ''PAULI_Y'' then PauliY
      else if g = ''Z'' \<or> g = ''PAULI_Z'' then PauliZ
      else if g = ''S'' \<or> g = ''PHASE'' then Phase
      else if g = ''T'' \<or> g = ''T_GATE'' then T_gate
      else if g = ''RX'' \<or> g = ''ROTATION_X'' then
        (if length params = 0 then Throw MissingParameter else RotationX (params ! 0))
      else if g = ''RY'' \<or> g = ''ROTATION_Y'' then
        (if length params = 0 then Throw MissingParameter else RotationY (params ! 0))
      else if g = ''RZ'' \<or> g = ''ROTATION_Z'' then
        (if length params = 0 then Throw MissingParameter else RotationZ (params ! 0))
      else if g = ''CNOT'' \<or> g = ''CONTROLLED_NOT'' then CNOT
      else if g = ''CZ'' \<or> g = ''CONTROLLED_Z'' then CZ
      else if g = ''CRZ'' \<or> g = ''CONTROLLED_RZ'' then
        (if length params = 0 then Throw MissingParameter else CRZ (params ! 0))
      else if g = ''SWAP'' then SWAP
      else if g = ''TOFFOLI'' \<or> g = ''CCNOT'' then Toffoli
      else if g = ''FREDKIN'' \<or> g = ''CSWAP'' then Fredkin
      else if g = ''U'' then
        (if length params < 3 then Throw MissingParameter
         else U (params ! 0) (params ! 1) (params ! 2))
      else if g = ''RK'' then
        (if length params = 0 then Throw MissingParameter else Rk (params ! 0))
      else Throw UnknownGate)"

record gate_info =
  info_name :: string
  info_qubits :: nat
  info_params :: nat
  info_description :: string

definition gate_info_table :: "(string \<times> gate_info) list" where
  \<comment> \<open>the object literal \<^verbatim>\<open>info\<close> of \<^verbatim>\<open>getGateInfo\<close>\<close>
  "gate_info_table =
     [(''H'', \<lparr>info_name = ''Hadamard'', info_qubits = 1, info_params = 0,
               info_description = ''Creates superposition''\<rparr>),
      (''X'', \<lparr>info_name = ''Pauli-X'', info_qubits = 1, info_params = 0,
               info_description = ''Bit flip gate''\<rparr>),
      (''Y'', \<lparr>info_name = ''Pauli-Y'', info_qubits = 1, info_params = 0,
               info_description = ''Bit and phase flip gate''\<rparr>),
      (''Z'', \<lparr>info_name = ''Pauli-Z'', info_qubits = 1, info_params = 0,
               info_description = ''Phase flip gate''\<rparr>),
      (''S'', \<lparr>info_name = ''Phase'', info_qubits = 1, info_params = 0,
               info_description = ''pi/2 phase shift''\<rparr>),
      (''T'', \<lparr>info_name = ''T-Gate'', info_qubits = 1, info_params = 0,
               info_description = ''pi/4 phase shift''\<rparr>),
      (''RX'', \<lparr>info_name = ''Rotation-X'', info_qubits = 1, info_params = 1,
                info_description = ''Rotation around X axis''\<rparr>),
      (''RY'', \<lparr>info_name = ''Rotation-Y'', info_qubits = 1, info_params = 1,
                info_description = ''Rotation around Y axis''\<rparr>),
      (''RZ'', \<lparr>info_name = ''Rotation-Z'', info_qubits = 1, info_params = 1,
                info_description = ''Rotation around Z axis''\<rparr>),
      (''CNOT'', \<lparr>info_name = ''Controlled-NOT'', info_qubits = 2, info_params = 0,
                  info_description = ''Conditional bit flip''\<rparr>),
      (''CZ'', \<lparr>info_name = ''Controlled-Z'', info_qubits = 2, info_params = 0,
                info_description = ''Conditional phase flip''\<rparr>),
      (''SWAP'', \<lparr>info_name = ''SWAP'', info_qubits = 2, info_params = 0,
                  info_description = ''Exchanges two qubits''\<rparr>),
      (''TOFFOLI'', \<lparr>info_name = ''Toffoli'', info_qubits = 3, info_params = 0,
                     info_description = ''Controlled-controlled-NOT''\<rparr>),
      (''FREDKIN'', \<lparr>info_name = ''Fredkin'', info_qubits = 3, info_params = 0,
                     info_description = ''Controlled-SWAP''\<rparr>)]"

definition getGateInfo :: "string \<Rightarrow> gate_info option" where
  \<comment> \<open>\<^verbatim>\<open>info[gateName.toUpperCase()] || null\<close>; \<open>None\<close> is \<^verbatim>\<open>null\<close>\<close>
  "getGateInfo gateName = map_of gate_info_table (toUpperCase gateName)"

section \<open>Quantum state (quantum-core.js, class QuantumState)\<close>

record QuantumState =
  numQubits :: nat
  dimension :: nat
  amplitudes :: "Complex_js list"

definition QuantumState_new :: "nat \<Rightarrow> QuantumState" where
  \<comment> \<open>the constructor: the basis state with amplitude 1 at index 0\<close>
  "QuantumState_new n =
     \<lparr>numQubits = n, dimension = 2 ^ n,
      amplitudes = (replicate (2 ^ n) (Complex_new 0 0))[0 := Complex_new 1 0]\<rparr>"

definition QuantumState_clone :: "QuantumState \<Rightarrow> QuantumState" where
  "QuantumState_clone this =
     (QuantumState_new (numQubits this))
       \<lparr>amplitudes := map (\<lambda>amp. Complex_new (real_js amp) (imag_js amp)) (amplitudes this)\<rparr>"

fun map_outcome :: "('a \<Rightarrow> 'b outcome) \<Rightarrow> 'a list \<Rightarrow> 'b list outcome" where
  \<comment> \<open>\<^verbatim>\<open>xs.map(f)\<close> for a callback that may not return\<close>
  "map_outcome f [] = Return []"
| "map_outcome f (x # xs) =
     bind (f x) (\<lambda>y. bind (map_outcome f xs) (\<lambda>ys. Return (y # ys)))"

definition vector_norm :: "Complex_js list \<Rightarrow> real" where
  \<comment> \<open>\<^verbatim>\<open>Math.sqrt(amplitudes.reduce((sum, amp) => sum + amp.magnitude() * amp.magnitude(), 0))\<close>\<close>
  "vector_norm amps =
     sqrt (foldl (\<lambda>acc amp. acc + Complex_magnitude amp * Complex_magnitude amp) 0 amps)"

definition QuantumState_normalize :: "QuantumState \<Rightarrow> QuantumState outcome" where
  "QuantumState_normalize this =
     (let nrm = vector_norm (amplitudes this)
      in if nrm < 1 / 10 ^ 10 then Throw ZeroState
         else bind (map_outcome (\<lambda>amp. Complex_divide amp (Complex_new nrm 0))
                      (amplitudes this))
                (\<lambda>amps. Return (this\<lparr>amplitudes := amps\<rparr>)))"

function log2_exact :: "nat \<Rightarrow> nat option" where
  \<comment> \<open>\<^verbatim>\<open>Math.log2(n)\<close> when it is an integer, \<open>None\<close> when \<^verbatim>\<open>Number.isInteger\<close> rejects it\<close>
  "log2_exact n =
     (if n = 0 then None
      else if n = 1 then Some 0
      else if n mod 2 = 0 then map_option Suc (log2_exact (n div 2))
      else None)"
  by pat_completeness auto
termination
  by (relation "measure (\<lambda>n. n)") auto

declare log2_exact.simps [simp del]

datatype amplitude_value = Number real | ComplexValue Complex_js

definition input_norm :: "amplitude_value list \<Rightarrow> real" where
  \<comment> \<open>the norm \<^verbatim>\<open>fromAmplitudes\<close> computes before it builds the state\<close>
  "input_norm values =
     sqrt (foldl (\<lambda>acc amp.
             (let magnitude = (case amp of ComplexValue c \<Rightarrow> Complex_magnitude c
                                         | Number x \<Rightarrow> \<bar>x\<bar>)
              in acc + magnitude * magnitude)) 0 values)"

definition fromAmplitudes :: "amplitude_value list \<Rightarrow> QuantumState outcome" where
  "fromAmplitudes values =
     (case log2_exact (length values) of
        None \<Rightarrow> Throw InvalidDimension
      | Some n \<Rightarrow>
          if input_norm values < 1 / 10 ^ 10 then Throw ZeroState
          else QuantumState_normalize
                 ((QuantumState_new n)
                    \<lparr>amplitudes := map (\<lambda>amp. case amp of ComplexValue c \<Rightarrow> Complex_clone c
                                                        | Number x \<Rightarrow> Complex_new x 0)
                                       values\<rparr>))"

fun transition_allowed :: "nat \<Rightarrow> int list \<Rightarrow> nat \<Rightarrow> nat \<Rightarrow> bool" where
  \<comment> \<open>the loop over \<^verbatim>\<open>controlQubits\<close>, with its \<^verbatim>\<open>break\<close>\<close>
  "transition_allowed n [] i j = True"
| "transition_allowed n (controlQubit # rest) i j =
     (if qubitBit n controlQubit i \<noteq> qubitBit n controlQubit j then False
      else transition_allowed n rest i j)"

fun target_index :: "nat \<Rightarrow> int list \<Rightarrow> nat \<Rightarrow> int \<Rightarrow> int" where
  \<comment> \<open>the loop over \<^verbatim>\<open>targetQubits\<close>: \<^verbatim>\<open>targetIndex = (targetIndex << 1) | iBit\<close>\<close>
  "target_index n [] i acc = acc"
| "target_index n (qubit # rest) i acc =
     target_index n rest i (js_or (js_shl acc 1) (qubitBit n qubit i))"

definition cell_value_at :: "grid \<Rightarrow> int \<Rightarrow> int \<Rightarrow> Complex_js outcome" where
  \<comment> \<open>\<^verbatim>\<open>data[i][j]\<close> read to be stored, the indices being 32-bit integers\<close>
  "cell_value_at d i j =
     (if i < 0 then Throw TypeError
      else if j < 0 then Unmodelled
      else cell_value d (nat i) (nat j))"

definition full_entry ::
  "nat \<Rightarrow> int list \<Rightarrow> int list \<Rightarrow> Matrix \<Rightarrow> nat \<Rightarrow> nat \<Rightarrow> Complex_js outcome" where
  \<comment> \<open>the value the body of the loop nest stores in \<^verbatim>\<open>fullMatrix.data[i][j]\<close>\<close>
  "full_entry n controlQubits targetQubits gateMatrix i j =
     (if \<not> transition_allowed n controlQubits i j then Return (Complex_new 0 0)
      else cell_value_at (data gateMatrix)
             (target_index n targetQubits i 0) (target_index n targetQubits j 0))"

definition createFullGateMatrix ::
  "QuantumState \<Rightarrow> Matrix \<Rightarrow> int list \<Rightarrow> Matrix outcome" where
  "createFullGateMatrix this gateMatrix targetQubits =
     (case log2_exact (rows gateMatrix) of
        None \<Rightarrow> Throw GateSizeNotPowerOfTwo
      | Some gateQubitCount \<Rightarrow>
          if length targetQubits \<noteq> gateQubitCount then Throw GateArityMismatch
          else
            bind (Matrix_identity (dimension this)) (\<lambda>fullMatrix.
              (let allQubits = map int [0..<numQubits this];
                   controlQubits = filter (\<lambda>q. q \<notin> set targetQubits) allQubits
               in bind (assign_cells (grid_cells (dimension this) (dimension this))
                          (full_entry (numQubits this) controlQubits targetQubits gateMatrix)
                          (data fullMatrix))
                    (\<lambda>d. Return (fullMatrix\<lparr>data := d\<rparr>)))))"

fun applyGate_loop ::
  "(nat \<times> nat) list \<Rightarrow> grid \<Rightarrow> Complex_js list \<Rightarrow> Complex_js list \<Rightarrow> Complex_js list outcome"
  where
  \<comment> \<open>\<^verbatim>\<open>newAmplitudes[i] = newAmplitudes[i].add(fullMatrix.data[i][j].multiply(amplitudes[j]))\<close>\<close>
  "applyGate_loop [] full amps newAmplitudes = Return newAmplitudes"
| "applyGate_loop ((i, j) # ps) full amps newAmplitudes =
     bind (cell full i j) (\<lambda>f. bind (element amps j) (\<lambda>a.
     bind (element newAmplitudes i) (\<lambda>old.
       applyGate_loop ps full amps
         (newAmplitudes[i := Complex_add old (Complex_multiply f a)]))))"

definition applyGate :: "QuantumState \<Rightarrow> Matrix \<Rightarrow> int list \<Rightarrow> QuantumState outcome" where
  \<comment> \<open>the check \<^verbatim>\<open>gateMatrix instanceof Matrix\<close> holds by the type of the argument\<close>
  "applyGate this gateMatrix targetQubits =
     bind (createFullGateMatrix this gateMatrix targetQubits) (\<lambda>fullMatrix.
     bind (applyGate_loop (grid_cells (dimension this) (dimension this)) (data fullMatrix)
             (amplitudes this) (replicate (dimension this) (Complex_new 0 0)))
       (\<lambda>newAmplitudes. Return (this\<lparr>amplitudes := newAmplitudes\<rparr>)))"

section \<open>Circuit engine (quantum-simulator.js, class QuantumCircuit)\<close>

text \<open>
  A gate object of the list \<^verbatim>\<open>gates\<close> is either a quantum gate, as \<^verbatim>\<open>addGate\<close> builds it
  (\<^verbatim>\<open>name\<close>, \<^verbatim>\<open>targetQubits\<close>, \<^verbatim>\<open>params\<close>, \<^verbatim>\<open>matrix\<close>), or an object with
  \<^verbatim>\<open>type: 'classical'\<close> (\<^verbatim>\<open>name\<close>, \<^verbatim>\<open>inputQubits\<close>, \<^verbatim>\<open>outputQubit\<close>, \<^verbatim>\<open>position\<close>). A
  \<^verbatim>\<open>params\<close> object is the list of its keys and values in insertion order; a property that
  may be absent is an \<open>option\<close>.
\<close>

type_synonym params_object = "(string \<times> real) list"

record quantum_gate =
  name :: string
  targetQubits :: "int list"
  params :: params_object
  matrix :: "Matrix option"

record classical_gate =
  classical_name :: string
  inputQubits :: "int list"
  outputQubit :: int
  position :: "real option"

datatype gate = Quantum quantum_gate | Classical classical_gate

record measurement =
  qubit :: int
  result :: int
  probabilities :: "real \<times> real"

record measurement_slot =
  slot_qubit :: int
  slot_result :: "measurement option"

record gate_operation =
  op_gate :: string
  op_targetQubits :: "int list option"
  op_params :: "params_object option"
  beforeState :: QuantumState
  afterState :: QuantumState

record shot_result =
  initialState :: QuantumState
  finalState :: QuantumState
  shot_measurements :: "measurement list"
  gateOperations :: "gate_operation list"

record QuantumCircuit =
  circuit_numQubits :: nat
  gates :: "gate list"
  measurements :: "measurement_slot list"
  state :: QuantumState
  executionHistory :: "shot_result list"

definition QuantumCircuit_new :: "nat \<Rightarrow> QuantumCircuit" where
  "QuantumCircuit_new n =
     \<lparr>circuit_numQubits = n, gates = [], measurements = [],
      state = QuantumState_new n, executionHistory = []\<rparr>"

fun validate_qubits :: "nat \<Rightarrow> int list \<Rightarrow> unit outcome" where
  \<comment> \<open>the loop that validates the qubit indices\<close>
  "validate_qubits n [] = Return ()"
| "validate_qubits n (q # qs) =
     (if q < 0 \<or> q \<ge> int n then Throw QubitIndexOutOfRange else validate_qubits n qs)"

definition existing_position :: "gate \<Rightarrow> nat \<Rightarrow> real" where
  \<comment> \<open>\<^verbatim>\<open>existingGate.params?.position || existingGate.position || i\<close>: an absent position
      and the position 0 are both falsy\<close>
  "existing_position existingGate i =
     (case existingGate of
        Quantum g \<Rightarrow>
          (case map_of (params g) ''position'' of
             Some p \<Rightarrow> if p \<noteq> 0 then p else real i
           | None \<Rightarrow> real i)
      | Classical g \<Rightarrow>
          (case position g of
             Some p \<Rightarrow> if p \<noteq> 0 then p else real i
           | None \<Rightarrow> real i))"

definition existing_qubits :: "gate \<Rightarrow> int list" where
  \<comment> \<open>\<^verbatim>\<open>existingGate.targetQubits || existingGate.inputQubits || []\<close>\<close>
  "existing_qubits existingGate =
     (case existingGate of Quantum g \<Rightarrow> targetQubits g | Classical g \<Rightarrow> inputQubits g)"

fun find_insertIndex :: "nat \<Rightarrow> gate list \<Rightarrow> int list \<Rightarrow> real \<Rightarrow> nat \<Rightarrow> nat" where
  \<comment> \<open>the loop of the position-based insertion, from index \<open>i\<close> on; the last argument is
      the variable \<^verbatim>\<open>insertIndex\<close>\<close>
  "find_insertIndex i [] targets pos insertIndex = insertIndex"
| "find_insertIndex i (existingGate # rest) targets pos insertIndex =
     (let existingPosition = existing_position existingGate i;
          existingGateQubits = existing_qubits existingGate
      in if (\<exists>q \<in> set existingGateQubits. q \<in> set targets) \<and> existingPosition < pos
         then find_insertIndex (Suc i) rest targets pos (i + 1)
         else if existingPosition \<ge> pos then insertIndex
         else find_insertIndex (Suc i) rest targets pos insertIndex)"

definition splice_insert :: "'a list \<Rightarrow> nat \<Rightarrow> 'a \<Rightarrow> 'a list" where
  \<comment> \<open>\<^verbatim>\<open>xs.splice(k, 0, x)\<close>\<close>
  "splice_insert xs k x = take k xs @ [x] @ drop k xs"

definition addGate ::
  "QuantumCircuit \<Rightarrow> string \<Rightarrow> int list \<Rightarrow> params_object \<Rightarrow> QuantumCircuit outcome" where
  "addGate this gateName targets ps =
     (case getGateInfo gateName of
        None \<Rightarrow> Throw UnknownGate
      | Some gateInfo \<Rightarrow>
          if length targets \<noteq> info_qubits gateInfo then Throw GateArityMismatch
          else
            bind (validate_qubits (circuit_numQubits this) targets) (\<lambda>_.
            bind (getGate gateName (map snd ps)) (\<lambda>m.
              (let g = Quantum \<lparr>name = gateName, targetQubits = targets, params = ps,
                                matrix = Some m\<rparr>
               in case map_of ps ''position'' of
                    Some pos \<Rightarrow>
                      (let insertIndex =
                             find_insertIndex 0 (gates this) targets pos (length (gates this))
                       in Return (this\<lparr>gates := splice_insert (gates this) insertIndex g\<rparr>))
                  | None \<Rightarrow> Return (this\<lparr>gates := gates this @ [g]\<rparr>)))))"

definition addMeasurement :: "QuantumCircuit \<Rightarrow> int \<Rightarrow> QuantumCircuit outcome" where
  "addMeasurement this q =
     (if q < 0 \<or> q \<ge> int (circuit_numQubits this) then Throw QubitIndexOutOfRange
      else Return (this\<lparr>measurements :=
                          measurements this @ [\<lparr>slot_qubit = q, slot_result = None\<rparr>]\<rparr>))"

definition reset :: "QuantumCircuit \<Rightarrow> QuantumCircuit" where
  "reset this =
     this\<lparr>measurements := map (\<lambda>m. m\<lparr>slot_result := None\<rparr>) (measurements this),
          executionHistory := []\<rparr>"

fun getQubitProbabilities_loop ::
  "nat list \<Rightarrow> QuantumCircuit \<Rightarrow> int \<Rightarrow> real \<times> real \<Rightarrow> (real \<times> real) outcome" where
  \<comment> \<open>\<^verbatim>\<open>prob0\<close> and \<^verbatim>\<open>prob1\<close> are declared with \<^verbatim>\<open>const\<close>: the assignments
      \<^verbatim>\<open>prob0 += probability\<close> and \<^verbatim>\<open>prob1 += probability\<close> throw a TypeError\<close>
  "getQubitProbabilities_loop [] this q (prob0, prob1) = Return (prob0, prob1)"
| "getQubitProbabilities_loop (i # rest) this q (prob0, prob1) =
     (let bit = qubitBit (circuit_numQubits this) q i
      in bind (element (amplitudes (state this)) i) (\<lambda>amp.
           (let probability = (Complex_magnitude amp)\<^sup>2
            in if bit = 0 then Throw TypeError else Throw TypeError)))"

definition getQubitProbabilities :: "QuantumCircuit \<Rightarrow> int \<Rightarrow> (real \<times> real) outcome" where
  "getQubitProbabilities this q =
     getQubitProbabilities_loop [0..<dimension (state this)] this q (0, 0)"

fun collapse_loop ::
  "nat list \<Rightarrow> QuantumCircuit \<Rightarrow> int \<Rightarrow> int \<Rightarrow> Complex_js list \<times> real
     \<Rightarrow> (Complex_js list \<times> real) outcome" where
  \<comment> \<open>\<open>nrm\<close> is the variable \<^verbatim>\<open>norm\<close>\<close>
  "collapse_loop [] this q r (newAmplitudes, nrm) = Return (newAmplitudes, nrm)"
| "collapse_loop (i # rest) this q r (newAmplitudes, nrm) =
     (let bit = qubitBit (circuit_numQubits this) q i
      in if bit = r
         then bind (element (amplitudes (state this)) i) (\<lambda>amp.
                collapse_loop rest this q r
                  (newAmplitudes[i := amp], nrm + (Complex_magnitude amp)\<^sup>2))
         else collapse_loop rest this q r (newAmplitudes, nrm))"

definition collapseQubit :: "QuantumCircuit \<Rightarrow> int \<Rightarrow> int \<Rightarrow> QuantumCircuit outcome" where
  "collapseQubit this q r =
     bind (collapse_loop [0..<dimension (state this)] this q r
             (replicate (dimension (state this)) (Complex_new 0 0), 0))
       (\<lambda>(newAmplitudes, nrm).
          if nrm > 1 / 10 ^ 10
          then bind (map_outcome (\<lambda>amp. Complex_divide amp (Complex_new (sqrt nrm) 0))
                       newAmplitudes)
                 (\<lambda>amps. Return (this\<lparr>state := (state this)\<lparr>amplitudes := amps\<rparr>\<rparr>))
          else Return this)"

definition measureQubit ::
  "QuantumCircuit \<Rightarrow> int \<Rightarrow> real \<Rightarrow> (QuantumCircuit \<times> measurement) outcome" where
  \<comment> \<open>the last argument is the sample \<^verbatim>\<open>Math.random()\<close> would give\<close>
  "measureQubit this q random =
     bind (getQubitProbabilities this q) (\<lambda>probs.
       (let r = (if random < fst probs then 0 else 1)
        in bind (collapseQubit this q r) (\<lambda>this'.
             Return (this', \<lparr>qubit = q, result = r, probabilities = probs\<rparr>))))"

definition write_at :: "'a list \<Rightarrow> int \<Rightarrow> 'a \<Rightarrow> 'a list outcome" where
  \<comment> \<open>\<^verbatim>\<open>xs[k] = v\<close>, the index being a 32-bit integer. A negative index names a property of
      the array object and not an element: the elements stay as they were. The index
      \<^verbatim>\<open>xs.length\<close> appends. A larger index grows the array and leaves holes.\<close>
  "write_at xs k v =
     (if k < 0 then Return xs
      else if k < int (length xs) then Return (xs[nat k := v])
      else if k = int (length xs) then Return (xs @ [v])
      else Unmodelled)"

definition qubit_argument :: "int list \<Rightarrow> nat \<Rightarrow> int option" where
  \<comment> \<open>\<^verbatim>\<open>gate.inputQubits[k]\<close>; \<open>None\<close> is \<^verbatim>\<open>undefined\<close>, the value of a missing element\<close>
  "qubit_argument qs k = (if k < length qs then Some (qs ! k) else None)"

definition argumentBit :: "nat \<Rightarrow> int option \<Rightarrow> nat \<Rightarrow> int" where
  \<comment> \<open>\<^verbatim>\<open>(i >> (numQubits - 1 - inputQubit)) & 1\<close> for a qubit read from \<^verbatim>\<open>gate.inputQubits\<close>:
      with \<^verbatim>\<open>undefined\<close> the difference is \<^verbatim>\<open>NaN\<close>, and a shift by \<^verbatim>\<open>NaN\<close> is a shift by 0\<close>
  "argumentBit n inputQubit i =
     (case inputQubit of
        Some q \<Rightarrow> qubitBit n q i
      | None \<Rightarrow> js_and (js_shr (int i) 0) 1)"

fun not_loop ::
  "nat list \<Rightarrow> nat \<Rightarrow> int option \<Rightarrow> int \<Rightarrow> Complex_js list \<Rightarrow> Complex_js list
     \<Rightarrow> Complex_js list outcome" where
  \<comment> \<open>\<open>inQ\<close> and \<open>outQ\<close> are the variables \<^verbatim>\<open>inputQubit\<close> and \<^verbatim>\<open>outputQubit\<close>\<close>
  "not_loop [] n inQ outQ amps newAmplitudes = Return newAmplitudes"
| "not_loop (i # rest) n inQ outQ amps newAmplitudes =
     (let inputBit = argumentBit n inQ i;
          flippedBit = 1 - inputBit;
          newStateIndex =
            (if flippedBit \<noteq> qubitBit n outQ i
             then js_xor (int i) (js_shl 1 (int n - 1 - outQ))
             else int i)
      in bind (element amps i) (\<lambda>amp.
         bind (write_at newAmplitudes newStateIndex (Complex_clone amp)) (\<lambda>newAmplitudes'.
           not_loop rest n inQ outQ amps newAmplitudes')))"

fun find_dominant :: "nat list \<Rightarrow> Complex_js list \<Rightarrow> int outcome" where
  \<comment> \<open>the scan for the first index whose amplitude has a magnitude above 0.9; \<open>-1\<close> when
      there is none\<close>
  "find_dominant [] amps = Return (- 1)"
| "find_dominant (i # rest) amps =
     bind (element amps i) (\<lambda>amp.
       if Complex_magnitude amp > 9 / 10 then Return (int i) else find_dominant rest amps)"

definition classical_logic ::
  "(int \<Rightarrow> int \<Rightarrow> int) \<Rightarrow> QuantumCircuit \<Rightarrow> classical_gate \<Rightarrow> QuantumCircuit outcome" where
  \<comment> \<open>the branches for AND and for OR are the same text but for the operator, \<^verbatim>\<open>&\<close> or
      \<^verbatim>\<open>|\<close>, which is the first argument here\<close>
  "classical_logic operator this g =
     (let inputQubit1 = qubit_argument (inputQubits g) 0;
          inputQubit2 = qubit_argument (inputQubits g) 1;
          n = numQubits (state this);
          dim = 2 ^ n
      in bind (find_dominant [0..<dim] (amplitudes (state this))) (\<lambda>stateIndex.
           if stateIndex \<ge> 0 then
             (let bit1 = argumentBit n inputQubit1 (nat stateIndex);
                  bit2 = argumentBit n inputQubit2 (nat stateIndex);
                  logicResult = operator bit1 bit2;
                  newAmplitudes = replicate dim (Complex_new 0 0);
                  outputBitMask = js_shl 1 (int n - 1 - outputQubit g);
                  logicResultMask = js_shl logicResult (int n - 1 - outputQubit g);
                  targetIndex = js_or (js_and stateIndex (js_not outputBitMask))
                                  logicResultMask
              in bind (write_at newAmplitudes targetIndex (Complex_new 1 0))
                   (\<lambda>newAmplitudes'.
                      Return (this\<lparr>state := (state this)\<lparr>amplitudes := newAmplitudes'\<rparr>\<rparr>)))
           else Return this))"

definition applyClassicalGate :: "QuantumCircuit \<Rightarrow> classical_gate \<Rightarrow> QuantumCircuit outcome"
  where
  "applyClassicalGate this g =
     (if classical_name g = ''NOT'' then
        (let inputQubit = qubit_argument (inputQubits g) 0;
             n = numQubits (state this);
             dim = 2 ^ n
         in bind (not_loop [0..<dim] n inputQubit (outputQubit g) (amplitudes (state this))
                    (replicate dim (Complex_new 0 0)))
              (\<lambda>newAmplitudes.
                 Return (this\<lparr>state := (state this)\<lparr>amplitudes := newAmplitudes\<rparr>\<rparr>)))
      else if classical_name g = ''AND'' then classical_logic js_and this g
      else if classical_name g = ''OR'' then classical_logic js_or this g
      else Return this)"

fun apply_gates ::
  "gate list \<Rightarrow> QuantumCircuit \<Rightarrow> gate list \<Rightarrow> gate_operation list
     \<Rightarrow> (QuantumCircuit \<times> gate_operation list) outcome" where
  \<comment> \<open>the loop over \<^verbatim>\<open>this.gates\<close> of \<^verbatim>\<open>executeSingleShot\<close>; the third argument holds the
      gates already applied, a missing \<^verbatim>\<open>matrix\<close> filled in\<close>
  "apply_gates [] this applied ops = Return (this\<lparr>gates := applied\<rparr>, ops)"
| "apply_gates (g # rest) this applied ops =
     (let before = QuantumState_clone (state this)
      in case g of
           Classical cg \<Rightarrow>
             bind (applyClassicalGate this cg) (\<lambda>this'.
               apply_gates rest this' (applied @ [g])
                 (ops @ [\<lparr>op_gate = classical_name cg, op_targetQubits = None,
                          op_params = None, beforeState = before,
                          afterState = QuantumState_clone (state this')\<rparr>]))
         | Quantum qg \<Rightarrow>
             bind (case matrix qg of
                     Some m \<Rightarrow> Return m
                   | None \<Rightarrow> getGate (name qg) (map snd (params qg))) (\<lambda>m.
             bind (applyGate (state this) m (targetQubits qg)) (\<lambda>st'.
               apply_gates rest (this\<lparr>state := st'\<rparr>)
                 (applied @ [Quantum (qg\<lparr>matrix := Some m\<rparr>)])
                 (ops @ [\<lparr>op_gate = name qg, op_targetQubits = Some (targetQubits qg),
                          op_params = Some (params qg), beforeState = before,
                          afterState = QuantumState_clone st'\<rparr>]))))"

fun measure_all ::
  "measurement_slot list \<Rightarrow> QuantumCircuit \<Rightarrow> (nat \<Rightarrow> real) \<Rightarrow> nat
     \<Rightarrow> measurement_slot list \<Rightarrow> measurement list
     \<Rightarrow> (QuantumCircuit \<times> nat \<times> measurement list) outcome" where
  \<comment> \<open>the loop over \<^verbatim>\<open>this.measurements\<close>; \<open>rnd k\<close> is the \<open>k\<close>-th sample of the random
      source\<close>
  "measure_all [] this rnd k measured ms = Return (this\<lparr>measurements := measured\<rparr>, k, ms)"
| "measure_all (slot # rest) this rnd k measured ms =
     bind (measureQubit this (slot_qubit slot) (rnd k)) (\<lambda>(this', measurementResult).
       measure_all rest this' rnd (Suc k)
         (measured @ [slot\<lparr>slot_result := Some measurementResult\<rparr>])
         (ms @ [measurementResult]))"

definition executeSingleShot ::
  "QuantumCircuit \<Rightarrow> (nat \<Rightarrow> real) \<Rightarrow> nat \<Rightarrow> (QuantumCircuit \<times> nat \<times> shot_result) outcome"
  where
  "executeSingleShot this rnd k =
     bind (apply_gates (gates this) this [] []) (\<lambda>(this1, ops).
     bind (measure_all (measurements this1) this1 rnd k [] []) (\<lambda>(this2, k', ms).
       (let shot = \<lparr>initialState = QuantumState_clone (state this),
                     finalState = QuantumState_clone (state this2),
                     shot_measurements = ms, gateOperations = ops\<rparr>
        in Return (this2\<lparr>executionHistory := executionHistory this2 @ [shot]\<rparr>, k', shot))))"

fun run_loop ::
  "nat \<Rightarrow> QuantumCircuit \<Rightarrow> (nat \<Rightarrow> real) \<Rightarrow> nat \<Rightarrow> shot_result list
     \<Rightarrow> (QuantumCircuit \<times> nat \<times> shot_result list) outcome" where
  \<comment> \<open>the first argument counts the shots still to run\<close>
  "run_loop 0 this rnd k results = Return (this, k, results)"
| "run_loop (Suc remaining) this rnd k results =
     bind (executeSingleShot (reset this) rnd k) (\<lambda>(this', k', shot).
       run_loop remaining this' rnd k' (results @ [shot]))"

definition run ::
  "QuantumCircuit \<Rightarrow> nat \<Rightarrow> (nat \<Rightarrow> real) \<Rightarrow> (QuantumCircuit \<times> shot_result list) outcome"
  where
  \<comment> \<open>the circuit after \<^verbatim>\<open>run(shots)\<close> and the list \<^verbatim>\<open>results\<close> that it hands to
      \<^verbatim>\<open>aggregateResults\<close>, which reads it and changes nothing\<close>
  "run this shots rnd =
     bind (run_loop shots this rnd 0 []) (\<lambda>(this', k, results). Return (this', results))"

definition gate_name :: "gate \<Rightarrow> string" where
  \<comment> \<open>\<^verbatim>\<open>gate.name\<close>\<close>
  "gate_name g = (case g of Quantum qg \<Rightarrow> name qg | Classical cg \<Rightarrow> classical_name cg)"

section \<open>Double-precision numbers\<close>

text \<open>
  The functions above compute on real numbers. That is what JavaScript computes, up to
  rounding, as long as no result leaves the range of the doubles. \<^verbatim>\<open>Complex.divide\<close> and
  \<^verbatim>\<open>fromAmplitudes\<close> are specified for every argument, also where a square overflows or
  a divisor underflows, so they are modelled a second time on the values a JavaScript
  number has: the finite numbers, the negative zero, the two infinities and \<^verbatim>\<open>NaN\<close>.
  \<open>Finite 0\<close> is the positive zero.

  Rounding to 53 bits is still not modelled: a result inside the range is its exact value.
  A result of magnitude \<open>2\<^sup>1\<^sup>0\<^sup>2\<^sup>4 - 2\<^sup>9\<^sup>7\<^sup>0\<close> or more, half a unit in the last place above the
  largest double, becomes an infinity; a result of magnitude \<open>2\<^sup>-\<^sup>1\<^sup>0\<^sup>7\<^sup>5\<close> or less, half the
  smallest positive double, becomes a zero.
\<close>

datatype js_number = Finite real | NegZero | PosInf | NegInf | NaN

definition overflow_bound :: real where
  "overflow_bound = 2 ^ 1024 - 2 ^ 970"

definition underflow_bound :: real where
  "underflow_bound = 1 / 2 ^ 1075"

fun sign_bit :: "js_number \<Rightarrow> bool" where
  "sign_bit (Finite r) = (r < 0)"
| "sign_bit NegZero = True"
| "sign_bit PosInf = False"
| "sign_bit NegInf = True"
| "sign_bit NaN = False"

fun number_value :: "js_number \<Rightarrow> real" where
  \<comment> \<open>the value of a finite number\<close>
  "number_value (Finite r) = r"
| "number_value NegZero = 0"
| "number_value PosInf = 0"
| "number_value NegInf = 0"
| "number_value NaN = 0"

fun is_infinite :: "js_number \<Rightarrow> bool" where
  "is_infinite PosInf = True"
| "is_infinite NegInf = True"
| "is_infinite x = False"

fun is_zero :: "js_number \<Rightarrow> bool" where
  "is_zero (Finite r) = (r = 0)"
| "is_zero NegZero = True"
| "is_zero x = False"

definition signed_infinity :: "bool \<Rightarrow> js_number" where
  "signed_infinity negative = (if negative then NegInf else PosInf)"

definition signed_zero :: "bool \<Rightarrow> js_number" where
  "signed_zero negative = (if negative then NegZero else Finite 0)"

definition to_double :: "bool \<Rightarrow> real \<Rightarrow> js_number" where
  \<comment> \<open>the double that the exact result \<open>r\<close> of an operation on finite numbers becomes;
      the first argument is the sign of a zero result\<close>
  "to_double negative r =
     (if overflow_bound \<le> r then PosInf
      else if r \<le> - overflow_bound then NegInf
      else if \<bar>r\<bar> \<le> underflow_bound then signed_zero negative
      else Finite r)"

definition js_times :: "js_number \<Rightarrow> js_number \<Rightarrow> js_number" where
  \<comment> \<open>\<^verbatim>\<open>x * y\<close>\<close>
  "js_times x y =
     (if x = NaN \<or> y = NaN then NaN
      else if (is_infinite x \<and> is_zero y) \<or> (is_zero x \<and> is_infinite y) then NaN
      else if is_infinite x \<or> is_infinite y then signed_infinity (sign_bit x \<noteq> sign_bit y)
      else to_double (sign_bit x \<noteq> sign_bit y) (number_value x * number_value y))"

definition js_divide :: "js_number \<Rightarrow> js_number \<Rightarrow> js_number" where
  \<comment> \<open>\<^verbatim>\<open>x / y\<close>\<close>
  "js_divide x y =
     (if x = NaN \<or> y = NaN then NaN
      else if is_infinite x
        then (if is_infinite y then NaN else signed_infinity (sign_bit x \<noteq> sign_bit y))
      else if is_infinite y then signed_zero (sign_bit x \<noteq> sign_bit y)
      else if is_zero y
        then (if is_zero x then NaN else signed_infinity (sign_bit x \<noteq> sign_bit y))
      else to_double (sign_bit x \<noteq> sign_bit y) (number_value x / number_value y))"

definition js_plus :: "js_number \<Rightarrow> js_number \<Rightarrow> js_number" where
  \<comment> \<open>\<^verbatim>\<open>x + y\<close>: a sum of zeros is negative only if both are, and an exact sum zero of
      nonzero numbers is positive\<close>
  "js_plus x y =
     (if x = NaN \<or> y = NaN then NaN
      else if is_infinite x then (if is_infinite y \<and> y \<noteq> x then NaN else x)
      else if is_infinite y then y
      else if is_zero x \<and> is_zero y then signed_zero (sign_bit x \<and> sign_bit y)
      else (let r = number_value x + number_value y in to_double (r < 0) r))"

fun js_negate :: "js_number \<Rightarrow> js_number" where
  \<comment> \<open>\<^verbatim>\<open>-x\<close>\<close>
  "js_negate (Finite r) = (if r = 0 then NegZero else Finite (- r))"
| "js_negate NegZero = Finite 0"
| "js_negate PosInf = NegInf"
| "js_negate NegInf = PosInf"
| "js_negate NaN = NaN"

definition js_minus :: "js_number \<Rightarrow> js_number \<Rightarrow> js_number" where
  \<comment> \<open>\<^verbatim>\<open>x - y\<close>\<close>
  "js_minus x y = js_plus x (js_negate y)"

fun js_less :: "js_number \<Rightarrow> js_number \<Rightarrow> bool" where
  \<comment> \<open>\<^verbatim>\<open>x < y\<close>: false when an operand is \<^verbatim>\<open>NaN\<close>; the two zeros are equal\<close>
  "js_less NaN y = False"
| "js_less x NaN = False"
| "js_less PosInf y = False"
| "js_less x NegInf = False"
| "js_less NegInf y = True"
| "js_less x PosInf = True"
| "js_less x y = (number_value x < number_value y)"

fun Math_sqrt :: "js_number \<Rightarrow> js_number" where
  "Math_sqrt (Finite r) = (if r < 0 then NaN else Finite (sqrt r))"
| "Math_sqrt NegZero = NegZero"
| "Math_sqrt PosInf = PosInf"
| "Math_sqrt NegInf = NaN"
| "Math_sqrt NaN = NaN"

fun Math_abs :: "js_number \<Rightarrow> js_number" where
  "Math_abs (Finite r) = Finite \<bar>r\<bar>"
| "Math_abs NegZero = Finite 0"
| "Math_abs PosInf = PosInf"
| "Math_abs NegInf = PosInf"
| "Math_abs NaN = NaN"

definition Math_atan2 :: "js_number \<Rightarrow> js_number \<Rightarrow> js_number" where
  \<comment> \<open>\<^verbatim>\<open>Math.atan2(y, x)\<close> with its cases for zeros and infinities: the sign of the result
      is the sign of \<open>y\<close>, also of a zero \<open>y\<close>\<close>
  "Math_atan2 y x =
     (if y = NaN \<or> x = NaN then NaN
      else if is_infinite y then
        Finite ((if sign_bit y then - 1 else 1)
                * (if x = PosInf then pi / 4 else if x = NegInf then 3 * pi / 4 else pi / 2))
      else if is_zero y then
        (if sign_bit x then Finite (if sign_bit y then - pi else pi)
         else signed_zero (sign_bit y))
      else if x = PosInf then signed_zero (sign_bit y)
      else if x = NegInf then Finite (if sign_bit y then - pi else pi)
      else if is_zero x then Finite (if sign_bit y then - (pi / 2) else pi / 2)
      else to_double (sign_bit y) (atan2 (number_value y) (number_value x)))"

section \<open>Complex arithmetic on doubles (quantum-core.js, class Complex)\<close>

text \<open>
  The methods of \<^verbatim>\<open>Complex\<close> once more, on doubles. A call returns or throws, so each method
  has an outcome; none of them has a \<^verbatim>\<open>throw\<close> or a check.
\<close>

record Complex_double =
  real_d :: js_number
  imag_d :: js_number




definition Complex_divide_double ::
  "Complex_double \<Rightarrow> Complex_double \<Rightarrow> Complex_double outcome" where
  "Complex_divide_double this other =
     (let denominator = js_plus (js_times (real_d other) (real_d other))
                          (js_times (imag_d other) (imag_d other))
      in Return
           \<lparr>real_d = js_divide (js_plus (js_times (real_d this) (real_d other))
                                  (js_times (imag_d this) (imag_d other))) denominator,
            imag_d = js_divide (js_minus (js_times (imag_d this) (real_d other))
                                  (js_times (real_d this) (imag_d other))) denominator\<rparr>)"

definition Complex_magnitude_double :: "Complex_double \<Rightarrow> js_number outcome" where
  "Complex_magnitude_double this =
     Return (Math_sqrt (js_plus (js_times (real_d this) (real_d this))
                          (js_times (imag_d this) (imag_d this))))"

definition Complex_phase_double :: "Complex_double \<Rightarrow> js_number outcome" where
  "Complex_phase_double this = Return (Math_atan2 (imag_d this) (real_d this))"

definition Complex_conjugate_double :: "Complex_double \<Rightarrow> Complex_double outcome" where
  "Complex_conjugate_double this =
     Return \<lparr>real_d = real_d this, imag_d = js_negate (imag_d this)\<rparr>"

definition Complex_clone_double :: "Complex_double \<Rightarrow> Complex_double outcome" where
  "Complex_clone_double this = Return \<lparr>real_d = real_d this, imag_d = imag_d this\<rparr>"

section \<open>fromAmplitudes over an object store\<close>

text \<open>
  Whether \<^verbatim>\<open>fromAmplitudes\<close> mutates or shares the caller's array and Complex objects, and
  whether it has built a state object when it throws, cannot be said of values. So the
  function is modelled over a store: objects live at addresses, an array holds numbers and
  references, \<^verbatim>\<open>new\<close> and \<^verbatim>\<open>map\<close> allocate, an assignment to a property changes the object in
  the store. A call gives its outcome and the store it leaves, also when it throws. The
  numbers are doubles.

  An object is entered in the store when its constructor has set its properties. An array
  that is dropped again inside the expression that makes it (\<^verbatim>\<open>Array(n)\<close> before
  \<^verbatim>\<open>fill().map\<close>, the argument of \<^verbatim>\<open>console.log\<close>) is not allocated.
\<close>

type_synonym address = nat

datatype js_value = NumberValue js_number | Reference address

record QuantumState_object =
  object_numQubits :: nat
  object_dimension :: nat
  amplitudes_array :: address

datatype heap_object =
    ComplexObject Complex_double
  | ArrayObject "js_value list"
  | StateObject QuantumState_object

record heap =
  objects :: "address \<Rightarrow> heap_object option"
  next_address :: address

definition allocate :: "heap \<Rightarrow> heap_object \<Rightarrow> address \<times> heap" where
  "allocate h obj =
     (next_address h,
      h\<lparr>objects := (objects h)(next_address h \<mapsto> obj), next_address := Suc (next_address h)\<rparr>)"

fun allocate_all :: "heap \<Rightarrow> heap_object list \<Rightarrow> address list \<times> heap" where
  "allocate_all h [] = ([], h)"
| "allocate_all h (obj # objs) =
     (let (a, h1) = allocate h obj;
          (as, h2) = allocate_all h1 objs
      in (a # as, h2))"

definition new_Complex_array :: "heap \<Rightarrow> Complex_double list \<Rightarrow> address \<times> heap" where
  \<comment> \<open>a new array of new Complex objects, as \<^verbatim>\<open>xs.map(x => new Complex(...))\<close> makes it\<close>
  "new_Complex_array h cs =
     (let (as, h1) = allocate_all h (map ComplexObject cs)
      in allocate h1 (ArrayObject (map Reference as)))"

definition on_return ::
  "'a outcome \<Rightarrow> heap \<Rightarrow> ('a \<Rightarrow> 'b outcome \<times> heap) \<Rightarrow> 'b outcome \<times> heap" where
  \<comment> \<open>a call that allocates nothing, made in the store \<open>h\<close>: when it does not return, the
      store stays \<open>h\<close>\<close>
  "on_return r h f =
     (case r of Return x \<Rightarrow> f x | Throw e \<Rightarrow> (Throw e, h) | Unmodelled \<Rightarrow> (Unmodelled, h))"

definition QuantumState_new_heap :: "heap \<Rightarrow> nat \<Rightarrow> address \<times> heap" where
  \<comment> \<open>\<^verbatim>\<open>new QuantumState(numQubits)\<close>: the address of the new state object\<close>
  "QuantumState_new_heap h n =
     (let (arr, h1) =
            new_Complex_array h (replicate (2 ^ n) \<lparr>real_d = Finite 0, imag_d = Finite 0\<rparr>);
          (one, h2) = allocate h1 (ComplexObject \<lparr>real_d = Finite 1, imag_d = Finite 0\<rparr>);
          h3 = (case objects h2 arr of
                  Some (ArrayObject elems) \<Rightarrow>
                    h2\<lparr>objects := (objects h2)(arr \<mapsto> ArrayObject (elems[0 := Reference one]))\<rparr>
                | _ \<Rightarrow> h2)
      in allocate h3
           (StateObject \<lparr>object_numQubits = n, object_dimension = 2 ^ n,
                          amplitudes_array = arr\<rparr>))"

definition set_amplitudes :: "heap \<Rightarrow> address \<Rightarrow> address \<Rightarrow> heap" where
  \<comment> \<open>\<^verbatim>\<open>state.amplitudes = arr\<close>\<close>
  "set_amplitudes h this arr =
     (case objects h this of
        Some (StateObject st) \<Rightarrow>
          h\<lparr>objects := (objects h)(this \<mapsto> StateObject (st\<lparr>amplitudes_array := arr\<rparr>))\<rparr>
      | _ \<Rightarrow> h)"

fun call_magnitude :: "heap \<Rightarrow> js_value \<Rightarrow> js_number outcome" where
  \<comment> \<open>\<^verbatim>\<open>amp.magnitude()\<close>: a number has no such method\<close>
  "call_magnitude h (NumberValue x) = Throw TypeError"
| "call_magnitude h (Reference a) =
     (case objects h a of
        Some (ComplexObject c) \<Rightarrow> Complex_magnitude_double c
      | _ \<Rightarrow> Throw TypeError)"

fun call_divide :: "heap \<Rightarrow> js_value \<Rightarrow> Complex_double \<Rightarrow> Complex_double outcome" where
  \<comment> \<open>\<^verbatim>\<open>amp.divide(other)\<close>\<close>
  "call_divide h (NumberValue x) other = Throw TypeError"
| "call_divide h (Reference a) other =
     (case objects h a of
        Some (ComplexObject c) \<Rightarrow> Complex_divide_double c other
      | _ \<Rightarrow> Throw TypeError)"

fun norm_squares :: "heap \<Rightarrow> js_value list \<Rightarrow> js_number \<Rightarrow> js_number outcome" where
  \<comment> \<open>the \<^verbatim>\<open>reduce\<close> of \<^verbatim>\<open>normalize\<close>: \<^verbatim>\<open>sum + amp.magnitude() * amp.magnitude()\<close>; \<open>acc\<close>
      is the variable \<^verbatim>\<open>sum\<close>\<close>
  "norm_squares h [] acc = Return acc"
| "norm_squares h (amp # rest) acc =
     bind (call_magnitude h amp) (\<lambda>magnitude1.
     bind (call_magnitude h amp) (\<lambda>magnitude2.
       norm_squares h rest (js_plus acc (js_times magnitude1 magnitude2))))"

fun divide_each :: "heap \<Rightarrow> js_number \<Rightarrow> js_value list \<Rightarrow> address list outcome \<times> heap" where
  \<comment> \<open>\<^verbatim>\<open>amplitudes.map(amp => amp.divide(new Complex(norm, 0)))\<close>: every step makes a divisor
      and a quotient; the result holds the addresses of the quotients\<close>
  "divide_each h nrm [] = (Return [], h)"
| "divide_each h nrm (amp # rest) =
     (let other = \<lparr>real_d = nrm, imag_d = Finite 0\<rparr>;
          (divisor, h1) = allocate h (ComplexObject other)
      in on_return (call_divide h1 amp other) h1 (\<lambda>quotient.
           (let (a, h2) = allocate h1 (ComplexObject quotient);
                (r, h3) = divide_each h2 nrm rest
            in (bind r (\<lambda>as. Return (a # as)), h3))))"

definition normalize_heap :: "heap \<Rightarrow> address \<Rightarrow> address outcome \<times> heap" where
  \<comment> \<open>\<^verbatim>\<open>this.normalize()\<close>, which returns \<^verbatim>\<open>this\<close>\<close>
  "normalize_heap h this =
     (case objects h this of
        Some (StateObject st) \<Rightarrow>
          (case objects h (amplitudes_array st) of
             Some (ArrayObject elems) \<Rightarrow>
               on_return (norm_squares h elems (Finite 0)) h (\<lambda>total.
                 (let nrm = Math_sqrt total
                  in if js_less nrm (Finite (1 / 10 ^ 10)) then (Throw ZeroState, h)
                     else
                       (let (r, h1) = divide_each h nrm elems
                        in on_return r h1 (\<lambda>as.
                             (let (arr, h2) = allocate h1 (ArrayObject (map Reference as))
                              in (Return this, set_amplitudes h2 this arr))))))
           | _ \<Rightarrow> (Throw TypeError, h))
      | _ \<Rightarrow> (Throw TypeError, h))"

fun element_magnitude :: "heap \<Rightarrow> js_value \<Rightarrow> js_number outcome" where
  \<comment> \<open>\<^verbatim>\<open>amp instanceof Complex ? amp.magnitude() : Math.abs(amp)\<close>; \<^verbatim>\<open>Math.abs\<close> of an object
      that is no array is \<^verbatim>\<open>NaN\<close>, and the conversion of an array to a number is not
      modelled\<close>
  "element_magnitude h (NumberValue x) = Return (Math_abs x)"
| "element_magnitude h (Reference a) =
     (case objects h a of
        Some (ComplexObject c) \<Rightarrow> Complex_magnitude_double c
      | Some (StateObject st) \<Rightarrow> Return NaN
      | _ \<Rightarrow> Unmodelled)"

fun input_squares :: "heap \<Rightarrow> js_value list \<Rightarrow> js_number \<Rightarrow> js_number outcome" where
  \<comment> \<open>the \<^verbatim>\<open>reduce\<close> of \<^verbatim>\<open>fromAmplitudes\<close>: \<^verbatim>\<open>sum + magnitude * magnitude\<close>\<close>
  "input_squares h [] acc = Return acc"
| "input_squares h (amp # rest) acc =
     bind (element_magnitude h amp) (\<lambda>magnitude.
       input_squares h rest (js_plus acc (js_times magnitude magnitude)))"

definition input_norm_double :: "heap \<Rightarrow> js_value list \<Rightarrow> js_number outcome" where
  \<comment> \<open>the norm \<^verbatim>\<open>fromAmplitudes\<close> computes before it builds the state\<close>
  "input_norm_double h elems =
     bind (input_squares h elems (Finite 0)) (\<lambda>total. Return (Math_sqrt total))"

fun clone_element :: "heap \<Rightarrow> js_value \<Rightarrow> Complex_double outcome" where
  \<comment> \<open>the callback of \<^verbatim>\<open>amplitudes.map\<close> in \<^verbatim>\<open>fromAmplitudes\<close>\<close>
  "clone_element h (NumberValue x) = Return \<lparr>real_d = x, imag_d = Finite 0\<rparr>"
| "clone_element h (Reference a) =
     (case objects h a of
        Some (ComplexObject c) \<Rightarrow> Complex_clone_double c
      | _ \<Rightarrow> Return \<lparr>real_d = Finite 0, imag_d = Finite 0\<rparr>)"

definition fromAmplitudes_heap :: "heap \<Rightarrow> address \<Rightarrow> address outcome \<times> heap" where
  \<comment> \<open>the argument is the address of the caller's array, the result the address of the
      new state object\<close>
  "fromAmplitudes_heap h amplitudes_arg =
     (case objects h amplitudes_arg of
        Some (ArrayObject elems) \<Rightarrow>
          (case log2_exact (length elems) of
             None \<Rightarrow> (Throw InvalidDimension, h)
           | Some n \<Rightarrow>
               on_return (input_norm_double h elems) h (\<lambda>nrm.
                 if js_less nrm (Finite (1 / 10 ^ 10)) then (Throw ZeroState, h)
                 else
                   (let (state, h1) = QuantumState_new_heap h n
                    in on_return (map_outcome (clone_element h1) elems) h1 (\<lambda>clones.
                         (let (arr, h2) = new_Complex_array h1 clones
                          in normalize_heap (set_amplitudes h2 state arr) state)))))
      | _ \<Rightarrow> (Throw TypeError, h))"

definition heap_extends :: "heap \<Rightarrow> heap \<Rightarrow> bool" where
  \<comment> \<open>every object of \<open>h\<close> is in \<open>h'\<close> as it was; what \<open>h'\<close> has more is new\<close>
  "heap_extends h h' \<longleftrightarrow>
     next_address h \<le> next_address h' \<and> (\<forall>a<next_address h. objects h' a = objects h a)"

definition heap_ok :: "heap \<Rightarrow> bool" where
  \<comment> \<open>nothing lives at an address that has not been handed out\<close>
  "heap_ok h \<longleftrightarrow> (\<forall>a\<ge>next_address h. objects h a = None)"

definition array_of_Complex ::
  "heap \<Rightarrow> address \<Rightarrow> address list \<Rightarrow> Complex_double list \<Rightarrow> bool" where
  \<comment> \<open>the array at \<open>arr\<close> holds references to the Complex objects at \<open>as\<close>, whose values
      are \<open>cs\<close>\<close>
  "array_of_Complex h arr as cs \<longleftrightarrow>
     objects h arr = Some (ArrayObject (map Reference as))
     \<and> list_all2 (\<lambda>a c. objects h a = Some (ComplexObject c)) as cs"

definition result_amplitudes :: "address outcome \<times> heap \<Rightarrow> Complex_double list option" where
  \<comment> \<open>the amplitudes of the state that a call has returned, read from the store it left\<close>
  "result_amplitudes r =
     (case r of
        (Return this, h) \<Rightarrow>
          (case objects h this of
             Some (StateObject st) \<Rightarrow>
               (case objects h (amplitudes_array st) of
                  Some (ArrayObject elems) \<Rightarrow>
                    (case map_outcome (\<lambda>v. case v of
                              Reference a \<Rightarrow> (case objects h a of
                                                 Some (ComplexObject c) \<Rightarrow> Return c
                                               | _ \<Rightarrow> Unmodelled)
                            | NumberValue x \<Rightarrow> Unmodelled) elems of
                       Return cs \<Rightarrow> Some cs
                     | _ \<Rightarrow> None)
                | _ \<Rightarrow> None)
           | _ \<Rightarrow> None)
      | _ \<Rightarrow> None)"

definition example_heap :: heap where
  \<comment> \<open>a caller's store: the Complex object \<open>i\<close>, the array \<open>[i, 0]\<close>, an array of three
      zeros, an array of two zeros and the array \<open>[1e200, 0]\<close>\<close>
  "example_heap =
     \<lparr>objects = [0 \<mapsto> ComplexObject \<lparr>real_d = Finite 0, imag_d = Finite 1\<rparr>,
                  1 \<mapsto> ArrayObject [Reference 0, NumberValue (Finite 0)],
                  2 \<mapsto> ArrayObject [NumberValue (Finite 0), NumberValue (Finite 0),
                                     NumberValue (Finite 0)],
                  3 \<mapsto> ArrayObject [NumberValue (Finite 0), NumberValue (Finite 0)],
                  4 \<mapsto> ArrayObject [NumberValue (Finite (10 ^ 200)), NumberValue (Finite 0)]],
      next_address = 5\<rparr>"

section \<open>Quantities the claims speak of\<close>

definition squared_norm :: "Complex_js list \<Rightarrow> real" where
  \<comment> \<open>the total squared norm \<open>\<Sum> |amp\<^sub>i|\<^sup>2\<close> of an amplitude vector\<close>
  "squared_norm amps = (\<Sum>i<length amps. (Complex_magnitude (amps ! i))\<^sup>2)"


definition logic_target :: "bool \<Rightarrow> nat \<Rightarrow> nat \<Rightarrow> nat" where
  \<comment> \<open>the basis index \<open>s\<close> with the bit at place \<open>k\<close> replaced by \<open>b\<close>\<close>
  "logic_target b k s = (if b then set_bit k s else unset_bit k s)"



definition in_range :: "real \<Rightarrow> bool" where
  \<comment> \<open>the exact result \<open>r\<close> neither overflows nor underflows\<close>
  "in_range r \<longleftrightarrow> r = 0 \<or> (underflow_bound < \<bar>r\<bar> \<and> \<bar>r\<bar> < overflow_bound)"

definition has_value :: "js_number \<Rightarrow> real \<Rightarrow> bool" where
  \<comment> \<open>\<open>x\<close> is a finite double and \<open>r\<close> is its value\<close>
  "has_value x r \<longleftrightarrow> x = Finite r \<or> (x = NegZero \<and> r = 0)"

definition Complex_has_value :: "Complex_double \<Rightarrow> Complex_js \<Rightarrow> bool" where
  "Complex_has_value c z \<longleftrightarrow>
     has_value (real_d c) (real_js z) \<and> has_value (imag_d c) (imag_js z)"


definition moderate :: "nat \<Rightarrow> real \<Rightarrow> bool" where
  \<comment> \<open>\<open>r\<close> is zero or has a magnitude between \<open>2\<^sup>-\<^sup>k\<close> and \<open>2\<^sup>k\<close>\<close>
  "moderate k r \<longleftrightarrow> r = 0 \<or> (1 / 2 ^ k \<le> \<bar>r\<bar> \<and> \<bar>r\<bar> \<le> 2 ^ k)"

fun moderate_value :: "amplitude_value \<Rightarrow> bool" where
  \<comment> \<open>every component is zero or has a magnitude between \<open>2\<^sup>-\<^sup>4\<^sup>0\<^sup>0\<close> and \<open>2\<^sup>4\<^sup>0\<^sup>0\<close>\<close>
  "moderate_value (Number r) = moderate 400 r"
| "moderate_value (ComplexValue z) = (moderate 400 (real_js z) \<and> moderate 400 (imag_js z))"

fun represents_element :: "heap \<Rightarrow> js_value \<Rightarrow> amplitude_value \<Rightarrow> bool" where
  \<comment> \<open>the element of the caller's array is a finite number, or a Complex object with
      finite fields, and the second argument is its value\<close>
  "represents_element h (NumberValue x) (Number r) = has_value x r"
| "represents_element h (Reference a) (ComplexValue z) =
     (case objects h a of Some (ComplexObject c) \<Rightarrow> Complex_has_value c z | _ \<Rightarrow> False)"
| "represents_element h (NumberValue x) (ComplexValue z) = False"
| "represents_element h (Reference a) (Number r) = False"

definition value_magnitude :: "amplitude_value \<Rightarrow> real" where
  \<comment> \<open>the magnitude of an element of the input\<close>
  "value_magnitude amp = (case amp of ComplexValue c \<Rightarrow> Complex_magnitude c | Number x \<Rightarrow> \<bar>x\<bar>)"

section \<open>Complex arithmetic: properties\<close>

lemma Complex_new_sel [simp]:
  "real_js (Complex_new a b) = a" "imag_js (Complex_new a b) = b"
  by (simp_all add: Complex_new_def)




lemma Complex_magnitude_cmod: "Complex_magnitude a = cmod (to_complex a)"
  by (simp add: Complex_magnitude_def to_complex_def cmod_def power2_eq_square)

lemma Complex_magnitude_sq:
  "(Complex_magnitude a)\<^sup>2 = real_js a * real_js a + imag_js a * imag_js a"
proof -
  have "0 \<le> real_js a * real_js a + imag_js a * imag_js a"
    by (simp add: add_nonneg_nonneg)
  then show ?thesis
    by (simp add: Complex_magnitude_def)
qed


section \<open>Doubles: finite results\<close>

lemma bounds_pos: "0 < underflow_bound" "0 < overflow_bound" "underflow_bound < overflow_bound"
  by (simp_all add: overflow_bound_def underflow_bound_def)

lemma to_double_zero [simp]: "to_double s 0 = signed_zero s"
  using bounds_pos by (simp add: to_double_def)









lemma has_value_Finite [simp]: "has_value (Finite a) r \<longleftrightarrow> a = r"
  by (auto simp: has_value_def)







lemma Math_sqrt_value: "has_value x a \<Longrightarrow> 0 \<le> a \<Longrightarrow> has_value (Math_sqrt x) (sqrt a)"
  by (auto simp: has_value_def)

lemma Math_abs_value: "has_value x a \<Longrightarrow> has_value (Math_abs x) \<bar>a\<bar>"
  by (auto simp: has_value_def)

lemma js_less_value: "has_value x a \<Longrightarrow> has_value y b \<Longrightarrow> js_less x y \<longleftrightarrow> a < b"
  by (auto simp: has_value_def)


lemma in_range_0 [simp]: "in_range 0"
  by (simp add: in_range_def)

section \<open>Complex division on doubles\<close>


lemma Complex_phase_double_negative_zero:
  "Complex_conjugate_double \<lparr>real_d = Finite (- 1), imag_d = Finite 0\<rparr>
   = Return \<lparr>real_d = Finite (- 1), imag_d = NegZero\<rparr>"
  "Complex_phase_double \<lparr>real_d = Finite (- 1), imag_d = NegZero\<rparr> = Return (Finite (- pi))"
  "Complex_phase_double \<lparr>real_d = Finite (- 1), imag_d = Finite 0\<rparr> = Return (Finite pi)"
  by (simp_all add: Complex_conjugate_double_def Complex_phase_double_def Math_atan2_def)




section \<open>Gate library: the gate U\<close>

lemmas matrix_defs =
  Matrix_fromArray_def Let_def Complex_fromPolar_def Matrix_isUnitary_def Matrix_dagger_def
  Matrix_conjugate_def Matrix_transpose_def Matrix_multiply_def Matrix_identity_def
  Matrix_new_def store_def element_def cell_def cell_value_def grid_cells_def upt_rec
  Complex_conjugate_def Complex_add_def Complex_multiply_def Complex_subtract_def
  Complex_magnitude_def

lemma U_last_cell:
  fixes c :: real
  shows "sqrt ((c * cos (p + l) * (c * cos l) + c * sin (p + l) * (c * sin l)) *
               (c * cos (p + l) * (c * cos l) + c * sin (p + l) * (c * sin l)) +
               (c * sin (p + l) * (c * cos l) - c * cos (p + l) * (c * sin l)) *
               (c * sin (p + l) * (c * cos l) - c * cos (p + l) * (c * sin l))) = c * c"
proof -
  have A: "cos (p + l) * cos l + sin (p + l) * sin l = cos p"
    using cos_diff [of "p + l" l] by simp
  have B: "sin (p + l) * cos l - cos (p + l) * sin l = sin p"
    using sin_diff [of "p + l" l] by simp
  have "c * cos (p + l) * (c * cos l) + c * sin (p + l) * (c * sin l)
        = c * c * (cos (p + l) * cos l + sin (p + l) * sin l)"
    by (simp add: algebra_simps)
  then have A': "c * cos (p + l) * (c * cos l) + c * sin (p + l) * (c * sin l) = c * c * cos p"
    by (simp only: A)
  have "c * sin (p + l) * (c * cos l) - c * cos (p + l) * (c * sin l)
        = c * c * (sin (p + l) * cos l - cos (p + l) * sin l)"
    by (simp add: algebra_simps)
  then have B': "c * sin (p + l) * (c * cos l) - c * cos (p + l) * (c * sin l) = c * c * sin p"
    by (simp only: B)
  have S: "cos p * cos p + sin p * sin p = 1"
    by simp
  have "c * c * cos p * (c * c * cos p) + c * c * sin p * (c * c * sin p)
        = (c * c) * (c * c) * (cos p * cos p + sin p * sin p)"
    by (simp only: distrib_left mult.assoc mult.left_commute)
  then have "c * c * cos p * (c * c * cos p) + c * c * sin p * (c * c * sin p) = (c * c)\<^sup>2"
    by (simp only: S mult_1_right power2_eq_square)
  then have "sqrt (c * c * cos p * (c * c * cos p) + c * c * sin p * (c * c * sin p))
             = \<bar>c * c\<bar>"
    by simp
  then show ?thesis
    by (simp only: A' B' abs_mult_self_eq) (simp add: abs_mult)
qed

text \<open>
  C4 says that \<open>U(\<theta>, \<phi>, \<lambda>)\<close> is a 2\<times>2 matrix \<open>M\<close> with \<open>M \<sqdot> M\<^sup>\<dagger>\<close> equal to the identity
  within 1e-10. The source hands \<^verbatim>\<open>Matrix.fromArray\<close> four rows of two entries: for all
  angles the result has 4 rows and 2 columns, and \<^verbatim>\<open>isUnitary\<close> (tolerance 1e-10) returns
  false on it. The entry \<open>(0, 0)\<close> of the product misses 1 by \<open>sin\<^sup>2 (\<theta>/2)\<close>, and where that is
  within the tolerance the entry \<open>(3, 1)\<close>, which should be 0, has magnitude \<open>cos\<^sup>2 (\<theta>/2)\<close>.
\<close>

theorem U_not_unitary:
  "\<exists>m. U theta phi lambda = Return m \<and> rows m = 4 \<and> cols m = 2
       \<and> Matrix_isUnitary m (1 / 10 ^ 10) = Return False"
proof -
  have "1 / 10 ^ 10 < cos (theta / 2) * cos (theta / 2)
        \<or> 1 / 10 ^ 10 < \<bar>cos (theta / 2) * cos (theta / 2) - 1\<bar>"
    by (simp add: abs_if) argo
  then show ?thesis
    by (simp add: U_def matrix_defs U_last_cell del: real_sqrt_gt_0_iff real_sqrt_lt_0_iff)
qed

theorem U_not_unitary_witness:
  "\<exists>m. U 0 0 0 = Return m \<and> rows m = 4 \<and> cols m = 2
       \<and> Matrix_isUnitary m (1 / 10 ^ 10) = Return False"
  by (rule U_not_unitary)

section \<open>Gate names: lookup and metadata\<close>

lemmas gate_name_defs =
  toUpperCase_def toUpperCase_char_def getGateInfo_def gate_info_table_def

text \<open>
  C5 says that every name the lookup \<^verbatim>\<open>getGate\<close> accepts has an entry in the metadata table,
  so that \<^verbatim>\<open>addGate\<close> does not fail with \<open>UnknownGate\<close> on it. The table of \<^verbatim>\<open>getGateInfo\<close> has
  the fourteen canonical names only: \<open>CRZ\<close>, \<open>U\<close>, \<open>RK\<close> and every alias are missing. For
  \<open>CRZ\<close> and for the alias \<open>HADAMARD\<close>: the lookup returns a matrix, the table has no entry,
  and \<^verbatim>\<open>addGate\<close> throws \<open>UnknownGate\<close>.
\<close>

theorem addGate_unknown_for_catalog_names:
  "(\<exists>m. getGate ''CRZ'' [1] = Return m)
   \<and> getGateInfo ''CRZ'' = None
   \<and> addGate (QuantumCircuit_new 2) ''CRZ'' [0, 1] [(''angle'', 1)] = Throw UnknownGate
   \<and> (\<exists>m. getGate ''HADAMARD'' [] = Return m)
   \<and> getGateInfo ''HADAMARD'' = None
   \<and> addGate (QuantumCircuit_new 1) ''HADAMARD'' [0] [] = Throw UnknownGate"
  by (simp add: gate_name_defs getGate_def addGate_def CRZ_def Hadamard_def
        Matrix_fromArray_def Let_def)

section \<open>Position-based insertion\<close>

text \<open>
  C6 says that a gate added with a position goes before the first existing gate whose
  effective position is at least the requested one. \<^verbatim>\<open>insertIndex\<close> starts at the length of
  the list and the loop only ever sets it behind an overlapping earlier gate; the
  \<^verbatim>\<open>break\<close> at a later gate leaves it where it is. With X on qubit 0 at position 1 and CNOT
  on qubits 0 and 1 at position 3 in the list, H on qubit 1 at position 2 is put at the
  end, behind the CNOT at position 3 that shares qubit 1 with it. The second component
  lists the effective positions of the three gates.
\<close>

theorem addGate_position_behind_later_gate:
  "bind (addGate (QuantumCircuit_new 2) ''X'' [0] [(''position'', 1)]) (\<lambda>c1.
   bind (addGate c1 ''CNOT'' [0, 1] [(''position'', 3)]) (\<lambda>c2.
   bind (addGate c2 ''H'' [1] [(''position'', 2)]) (\<lambda>c3.
     Return (map gate_name (gates c3), map (\<lambda>g. existing_position g 0) (gates c3)))))
   = Return ([''X'', ''CNOT'', ''H''], [1, 3, 2])"
  by (simp add: gate_name_defs getGate_def addGate_def PauliX_def CNOT_def Hadamard_def
        Matrix_fromArray_def Let_def QuantumCircuit_new_def existing_position_def
        existing_qubits_def splice_insert_def gate_name_def)

section \<open>Measurement of one qubit\<close>

lemma getQubitProbabilities_throws:
  "0 < dimension (state this) \<Longrightarrow> getQubitProbabilities this q = Throw TypeError"
  by (simp add: getQubitProbabilities_def upt_conv_Cons element_def Let_def)

text \<open>
  C1 says that \<^verbatim>\<open>measureQubit\<close> completes and returns a result. \<^verbatim>\<open>getQubitProbabilities\<close>
  declares \<^verbatim>\<open>prob0\<close> and \<^verbatim>\<open>prob1\<close> with \<^verbatim>\<open>const\<close> and then adds to them, so its first
  iteration throws a TypeError: on every circuit whose state has at least one amplitude,
  for every qubit and every sample, \<^verbatim>\<open>measureQubit\<close> throws and returns nothing.
\<close>

theorem measureQubit_throws:
  assumes "0 < dimension (state this)"
  shows "measureQubit this q random = Throw TypeError"
  using assms by (simp add: measureQubit_def getQubitProbabilities_throws)

theorem measureQubit_throws_witness:
  "0 < dimension (state (QuantumCircuit_new 1))
   \<and> measureQubit (QuantumCircuit_new 1) 0 (1 / 2) = Throw TypeError"
proof -
  have d: "0 < dimension (state (QuantumCircuit_new 1))"
    by (simp add: QuantumCircuit_new_def QuantumState_new_def)
  from d measureQubit_throws [OF d, of 0 "1 / 2"] show ?thesis by simp
qed

section \<open>Collapse of one qubit\<close>

lemma bind_Return_iff: "bind m f = Return y \<longleftrightarrow> (\<exists>x. m = Return x \<and> f x = Return y)"
  by (cases m) simp_all

lemma map_outcome_Return:
  "(\<And>x. x \<in> set xs \<Longrightarrow> f x = Return (g x)) \<Longrightarrow> map_outcome f xs = Return (map g xs)"
  by (induction xs) simp_all

lemma Complex_divide_real:
  "s \<noteq> 0 \<Longrightarrow>
   Complex_divide a (Complex_new s 0) = Return (Complex_new (real_js a / s) (imag_js a / s))"
  by (simp add: Complex_divide_def)

lemma magnitude_sq_scaled:
  "(Complex_magnitude (Complex_new (real_js a / s) (imag_js a / s)))\<^sup>2
   = (Complex_magnitude a)\<^sup>2 / (s * s)"
  by (simp add: Complex_magnitude_sq add_divide_distrib)









section \<open>Reset and run\<close>

lemma reset_fields:
  "state (reset c) = state c" "executionHistory (reset c) = []" "gates (reset c) = gates c"
  "map slot_result (measurements (reset c)) = replicate (length (measurements c)) None"
  "map slot_qubit (measurements (reset c)) = map slot_qubit (measurements c)"
  by (simp_all add: reset_def comp_def map_replicate_const)

lemma executeSingleShot_empty:
  assumes "gates c = []" "measurements c = []"
  shows "\<exists>c' shot. executeSingleShot c rnd k = Return (c', k, shot)
           \<and> state c' = state c \<and> gates c' = [] \<and> measurements c' = []"
  using assms by (simp add: executeSingleShot_def Let_def)

lemma run_loop_empty:
  assumes "gates c = []" "measurements c = []"
  shows "\<exists>c' results'. run_loop shots c rnd k results = Return (c', k, results')
           \<and> state c' = state c \<and> gates c' = [] \<and> measurements c' = []
           \<and> length results' = length results + shots"
  using assms
proof (induction shots arbitrary: c results)
  case 0
  then show ?case by simp
next
  case (Suc n)
  have "gates (reset c) = []" "measurements (reset c) = []"
    using Suc.prems by (simp_all add: reset_def)
  from executeSingleShot_empty [OF this, of rnd k]
  obtain c1 shot where 1: "executeSingleShot (reset c) rnd k = Return (c1, k, shot)"
    and 2: "state c1 = state (reset c)" "gates c1 = []" "measurements c1 = []"
    by blast
  from Suc.IH [OF 2(2,3), of "results @ [shot]"] 1 2 show ?case
    by (auto simp: reset_fields)
qed

lemma run_empty:
  assumes "gates c = []" "measurements c = []"
  shows "\<exists>c' results. run c shots rnd = Return (c', results)
           \<and> state c' = state c \<and> gates c' = [] \<and> measurements c' = []
           \<and> length results = shots"
  using run_loop_empty [OF assms, of shots rnd 0 "[]"]
  by (auto simp: run_def)

text \<open>
  C8: \<^verbatim>\<open>reset\<close>, which \<^verbatim>\<open>run\<close> calls before every shot, sets every recorded measurement
  result to null and empties the execution history, and leaves the quantum state as it is.
  So for a circuit with no gates and no measurements \<^verbatim>\<open>run\<close> returns, for any number of
  shots, with the amplitude vector it started from, and so does a second \<^verbatim>\<open>run\<close> after it;
  in particular a state built by \<^verbatim>\<open>fromAmplitudes\<close> and installed in a new circuit is still
  there after repeated runs.
\<close>

theorem reset_and_run_keep_state:
  "state (reset c) = state c \<and> executionHistory (reset c) = []
   \<and> map slot_result (measurements (reset c)) = replicate (length (measurements c)) None
   \<and> (gates c = [] \<and> measurements c = [] \<longrightarrow>
        (\<exists>c1 results1. run c shots1 rnd1 = Return (c1, results1)
           \<and> amplitudes (state c1) = amplitudes (state c)
           \<and> (\<exists>c2 results2. run c1 shots2 rnd2 = Return (c2, results2)
                 \<and> amplitudes (state c2) = amplitudes (state c))))
   \<and> (fromAmplitudes values = Return st \<longrightarrow>
        (\<exists>c1 results1. run ((QuantumCircuit_new n)\<lparr>state := st\<rparr>) shots1 rnd1
                           = Return (c1, results1)
           \<and> amplitudes (state c1) = amplitudes st
           \<and> (\<exists>c2 results2. run c1 shots2 rnd2 = Return (c2, results2)
                 \<and> amplitudes (state c2) = amplitudes st)))"
proof -
  have twice: "\<exists>c1 results1. run d shots1 rnd1 = Return (c1, results1)
           \<and> amplitudes (state c1) = amplitudes (state d)
           \<and> (\<exists>c2 results2. run c1 shots2 rnd2 = Return (c2, results2)
                 \<and> amplitudes (state c2) = amplitudes (state d))"
    if d: "gates d = []" "measurements d = []" for d
  proof -
    from run_empty [OF d, of shots1 rnd1]
    obtain c1 results1 where 1: "run d shots1 rnd1 = Return (c1, results1)"
      "state c1 = state d" "gates c1 = []" "measurements c1 = []"
      by blast
    from run_empty [OF 1(3,4), of shots2 rnd2]
    obtain c2 results2 where 2: "run c1 shots2 rnd2 = Return (c2, results2)"
      "state c2 = state c1"
      by blast
    from 1 2 show ?thesis
      by simp
  qed
  have "gates ((QuantumCircuit_new n)\<lparr>state := st\<rparr>) = []"
    "measurements ((QuantumCircuit_new n)\<lparr>state := st\<rparr>) = []"
    by (simp_all add: QuantumCircuit_new_def)
  from twice [OF this] twice [of c] show ?thesis
    by (simp add: reset_fields)
qed

lemma fromAmplitudes_01:
  "fromAmplitudes [Number 0, Number 1]
   = Return \<lparr>numQubits = 1, dimension = 2, amplitudes = [Complex_new 0 0, Complex_new 1 0]\<rparr>"
  by (simp add: fromAmplitudes_def log2_exact.simps input_norm_def QuantumState_normalize_def
        vector_norm_def Complex_magnitude_def QuantumState_new_def Complex_divide_def Let_def)

theorem reset_and_run_keep_state_witness:
  "gates (QuantumCircuit_new 1) = [] \<and> measurements (QuantumCircuit_new 1) = []
   \<and> (\<exists>c1 results1. run (QuantumCircuit_new 1) 1 (\<lambda>k. 1 / 2) = Return (c1, results1)
         \<and> amplitudes (state c1) = amplitudes (state (QuantumCircuit_new 1))
         \<and> (\<exists>c2 results2. run c1 3 (\<lambda>k. 1 / 2) = Return (c2, results2)
               \<and> amplitudes (state c2) = amplitudes (state (QuantumCircuit_new 1))))
   \<and> fromAmplitudes [Number 0, Number 1]
       = Return \<lparr>numQubits = 1, dimension = 2,
                  amplitudes = [Complex_new 0 0, Complex_new 1 0]\<rparr>
   \<and> (\<exists>c1 results1.
         run ((QuantumCircuit_new 1)
                \<lparr>state := \<lparr>numQubits = 1, dimension = 2,
                            amplitudes = [Complex_new 0 0, Complex_new 1 0]\<rparr>\<rparr>)
           1 (\<lambda>k. 1 / 2) = Return (c1, results1)
         \<and> amplitudes (state c1) = [Complex_new 0 0, Complex_new 1 0]
         \<and> (\<exists>c2 results2. run c1 3 (\<lambda>k. 1 / 2) = Return (c2, results2)
               \<and> amplitudes (state c2) = [Complex_new 0 0, Complex_new 1 0]))"
proof -
  have e: "gates (QuantumCircuit_new 1) = [] \<and> measurements (QuantumCircuit_new 1) = []"
    by (simp add: QuantumCircuit_new_def)
  note t = reset_and_run_keep_state
             [of "QuantumCircuit_new 1" 1 "\<lambda>k. 1 / 2" 3 "\<lambda>k. 1 / 2" "[Number 0, Number 1]"
                 "\<lparr>numQubits = 1, dimension = 2,
                   amplitudes = [Complex_new 0 0, Complex_new 1 0]\<rparr>" 1]
  from t e fromAmplitudes_01 show ?thesis
    by simp
qed

section \<open>Bits of a basis index\<close>

lemma pow_bounds:
  assumes "k \<le> 30"
  shows "- (2 ^ 31) \<le> (2::int) ^ k" "(2::int) ^ k < 2 ^ 31"
proof -
  have a: "(2::int) ^ k \<le> 2 ^ 30"
    using assms by (intro power_increasing) simp_all
  have b: "(0::int) \<le> 2 ^ k"
    by simp
  have "- (2 ^ 31) \<le> (0::int)"
    by simp
  then show "- (2 ^ 31) \<le> (2::int) ^ k"
    using b by (rule order_trans)
  have "(2::int) ^ 30 < 2 ^ 31"
    by simp
  with a show "(2::int) ^ k < 2 ^ 31"
    by (rule le_less_trans)
qed

lemma toInt32_id: "- (2 ^ 31) \<le> x \<Longrightarrow> x < 2 ^ 31 \<Longrightarrow> toInt32 x = x"
  by (simp add: toInt32_def signed_take_bit_int_eq_self)

lemma toInt32_nat: "int s < 2 ^ 31 \<Longrightarrow> toInt32 (int s) = int s"
  by (rule toInt32_id) simp_all

lemma int_less_2_31:
  assumes "s < 2 ^ n" "n \<le> 31"
  shows "int s < 2 ^ 31"
proof -
  have "(2::nat) ^ n \<le> 2 ^ 31"
    using assms(2) by (intro power_increasing) simp_all
  with assms(1) have "s < 2 ^ 31"
    by (rule less_le_trans)
  then have "int s < int (2 ^ 31)"
    by (simp only: of_nat_less_iff)
  then show ?thesis
    by simp
qed

lemma js_shl_of_bool:
  assumes "k \<le> 30"
  shows "js_shl (of_bool b) (int k) = of_bool b * 2 ^ k"
proof -
  have k: "nat (int k mod 32) = k"
    using assms by simp
  show ?thesis
  proof (cases b)
    case True
    have "toInt32 (2 ^ k) = 2 ^ k"
      by (rule toInt32_id [OF pow_bounds [OF assms]])
    then show ?thesis
      using True k by (simp add: js_shl_def toInt32_id push_bit_eq_mult)
  next
    case False
    then show ?thesis
      by (simp add: js_shl_def toInt32_id)
  qed
qed

lemma js_and_of_bool: "js_and (of_bool a) (of_bool b) = of_bool (a \<and> b)"
  by (cases a; cases b; simp add: js_and_def toInt32_id)

lemma js_or_of_bool: "js_or (of_bool a) (of_bool b) = of_bool (a \<or> b)"
  by (cases a; cases b; simp add: js_or_def toInt32_id)


lemma qubitBit_eq_bit:
  assumes "0 \<le> q" "q < int n" "n \<le> 31" "s < 2 ^ n"
  shows "qubitBit n q s = of_bool (bit s (n - 1 - nat q))"
proof -
  let ?k = "n - 1 - nat q"
  have k: "int n - 1 - q = int ?k" "?k < 32"
    using assms by auto
  have s31: "int s < 2 ^ 31"
    by (rule int_less_2_31 [OF assms(4,3)])
  have "js_shr (int s) (int n - 1 - q) = drop_bit (nat (int ?k mod 32)) (int s)"
    by (simp only: js_shr_def toInt32_nat [OF s31] k(1))
  also have "nat (int ?k mod 32) = ?k"
    using k(2) by simp
  finally have shr: "js_shr (int s) (int n - 1 - q) = int (drop_bit ?k s)"
    by (simp add: of_nat_drop_bit)
  have "drop_bit ?k s \<le> s"
    by (simp add: drop_bit_eq_div)
  then have "int (drop_bit ?k s) < 2 ^ 31"
    using s31 by linarith
  then have d: "toInt32 (int (drop_bit ?k s)) = int (drop_bit ?k s)"
    by (rule toInt32_nat)
  have one: "toInt32 1 = 1"
    by (rule toInt32_id) simp_all
  have "qubitBit n q s = int (drop_bit ?k s) AND 1"
    by (simp only: qubitBit_def js_and_def shr d one)
  also have "\<dots> = of_bool (bit s ?k)"
    by (simp add: and_one_eq bit_iff_odd_drop_bit mod_2_eq_odd)
  finally show ?thesis .
qed


lemma or_mask_set: "unset_bit k (x::int) OR 2 ^ k = set_bit k x"
  by (rule bit_eqI) (auto simp: bit_simps)

lemma target_index_eq:
  assumes "k < n" "n \<le> 31" "s < 2 ^ n"
  shows "js_or (js_and (int s) (js_not (js_shl 1 (int k)))) (js_shl (of_bool b) (int k))
         = int (if b then set_bit k s else unset_bit k s)"
proof -
  have k30: "k \<le> 30"
    using assms by simp
  have s31: "int s < 2 ^ 31"
    by (rule int_less_2_31 [OF assms(3,2)])
  note p = pow_bounds [OF k30]
  have mask: "js_shl 1 (int k) = 2 ^ k"
    using js_shl_of_bool [OF k30, of True] by simp
  have "NOT ((2::int) ^ k) = - (2 ^ k) - 1"
    by (simp add: not_int_def)
  with p have "- (2 ^ 31) \<le> NOT ((2::int) ^ k)" "NOT ((2::int) ^ k) < 2 ^ 31"
    by linarith+
  then have nm: "toInt32 (NOT ((2::int) ^ k)) = NOT (2 ^ k)"
    by (rule toInt32_id)
  have "js_and (int s) (js_not (js_shl 1 (int k))) = int s AND NOT (2 ^ k)"
    by (simp only: mask js_not_def js_and_def toInt32_id [OF p] nm toInt32_nat [OF s31])
  then have cleared: "js_and (int s) (js_not (2 ^ k)) = unset_bit k (int s)"
    by (simp add: unset_bit_eq_and_not mask)
  have "0 \<le> unset_bit k (int s)"
    by simp
  moreover have "unset_bit k (int s) < 2 ^ 31"
    using unset_bit_less_eq [of k "int s"] s31 by linarith
  ultimately have u: "toInt32 (unset_bit k (int s)) = unset_bit k (int s)"
    by (intro toInt32_id) linarith+
  show ?thesis
  proof (cases b)
    case True
    have "js_or (unset_bit k (int s)) (2 ^ k) = unset_bit k (int s) OR 2 ^ k"
      by (simp only: js_or_def u toInt32_id [OF p])
    with True show ?thesis
      by (simp add: cleared mask or_mask_set of_nat_set_bit_eq)
  next
    case False
    have z: "toInt32 0 = 0"
      by (rule toInt32_id) simp_all
    have "js_or (unset_bit k (int s)) 0 = unset_bit k (int s)"
      by (simp add: js_or_def u z)
    moreover have "js_shl 0 (int k) = 0"
      using js_shl_of_bool [OF k30, of False] by simp
    ultimately show ?thesis
      using False by (simp add: cleared mask of_nat_unset_bit_eq)
  qed
qed

lemma set_unset_less:
  assumes "k < n" "s < 2 ^ n"
  shows "(if b then set_bit k s else unset_bit k s) < (2::nat) ^ n"
proof -
  have "take_bit n s = s"
    using assms(2) by (simp add: take_bit_nat_eq_self)
  then have "take_bit n (if b then set_bit k s else unset_bit k s)
             = (if b then set_bit k s else unset_bit k s)"
    using assms(1) by (simp add: take_bit_set_bit_eq take_bit_unset_bit_eq)
  then show ?thesis
    by (simp only: take_bit_nat_eq_self_iff)
qed


lemma find_dominant_first:
  assumes "s < d" "d \<le> length amps" "a \<le> s"
    and "Complex_magnitude (amps ! s) > 9 / 10"
    and "\<And>i. a \<le> i \<Longrightarrow> i < s \<Longrightarrow> \<not> Complex_magnitude (amps ! i) > 9 / 10"
  shows "find_dominant [a..<d] amps = Return (int s)"
  using assms
proof (induction "s - a" arbitrary: a)
  case 0
  then have "a = s" by simp
  with 0 show ?case
    by (simp add: upt_conv_Cons element_def)
next
  case (Suc m)
  then have "a < s" by simp
  with Suc.prems have "\<not> Complex_magnitude (amps ! a) > 9 / 10" "a < d" "a < length amps"
    by auto
  moreover have "find_dominant [Suc a..<d] amps = Return (int s)"
    using Suc.hyps Suc.prems \<open>a < s\<close> by (intro Suc.hyps(1)) auto
  ultimately show ?case
    by (simp add: upt_conv_Cons element_def)
qed


section \<open>Classical AND and OR\<close>

lemma squared_norm_basis:
  assumes "t < d"
  shows "squared_norm ((replicate d (Complex_new 0 0))[t := Complex_new 1 0]) = 1"
proof -
  have "squared_norm ((replicate d (Complex_new 0 0))[t := Complex_new 1 0])
        = (\<Sum>i<d. if i = t then 1 else 0)"
    unfolding squared_norm_def
    by (rule sum.cong) (auto simp: nth_list_update Complex_magnitude_def)
  also have "\<dots> = 1"
    using assms by simp
  finally show ?thesis .
qed

lemma js_and_1: "js_and x 1 = of_bool (js_and x 1 = 1)"
proof -
  have one: "toInt32 1 = 1"
    by (rule toInt32_id) simp_all
  have "js_and x 1 = toInt32 x mod 2"
    by (simp only: js_and_def one and_one_eq)
  then show ?thesis
    by (simp add: mod2_eq_if)
qed

lemma argumentBit_of_bool: "argumentBit n q i = of_bool (argumentBit n q i = 1)"
proof (cases q)
  case None
  then show ?thesis
    using js_and_1 [of "js_shr (int i) 0"] by (simp add: argumentBit_def)
next
  case (Some qubit)
  then show ?thesis
    using js_and_1 [of "js_shr (int i) (int n - 1 - qubit)"]
    by (simp add: argumentBit_def qubitBit_def)
qed

lemma classical_logic_basis:
  assumes n: "numQubits (state this) = n" "n \<le> 31" "length (amplitudes (state this)) = 2 ^ n"
    and out: "0 \<le> outputQubit g" "outputQubit g < int n"
    and dom: "s < 2 ^ n" "Complex_magnitude (amplitudes (state this) ! s) > 9 / 10"
      "\<And>i. i < s \<Longrightarrow> \<not> Complex_magnitude (amplitudes (state this) ! i) > 9 / 10"
    and op: "\<And>a b. operator (of_bool a) (of_bool b) = of_bool (f a b)"
  shows "classical_logic operator this g
         = Return (this\<lparr>state := (state this)\<lparr>amplitudes :=
             (replicate (2 ^ n) (Complex_new 0 0))
               [logic_target
                  (f (argumentBit n (qubit_argument (inputQubits g) 0) s = 1)
                     (argumentBit n (qubit_argument (inputQubits g) 1) s = 1))
                  (n - 1 - nat (outputQubit g)) s := Complex_new 1 0]\<rparr>\<rparr>)"
proof -
  define k where "k = n - 1 - nat (outputQubit g)"
  define b1 where "b1 \<longleftrightarrow> argumentBit n (qubit_argument (inputQubits g) 0) s = 1"
  define b2 where "b2 \<longleftrightarrow> argumentBit n (qubit_argument (inputQubits g) 1) s = 1"
  define b where "b = f b1 b2"
  define t where "t = logic_target b k s"
  have k: "k < n" "int n - 1 - outputQubit g = int k"
    using out by (auto simp: k_def)
  have found: "find_dominant [0..<2 ^ n] (amplitudes (state this)) = Return (int s)"
    using dom n(3) by (intro find_dominant_first) simp_all
  have "argumentBit n (qubit_argument (inputQubits g) 0) s = of_bool b1"
    unfolding b1_def by (rule argumentBit_of_bool)
  moreover have "argumentBit n (qubit_argument (inputQubits g) 1) s = of_bool b2"
    unfolding b2_def by (rule argumentBit_of_bool)
  ultimately have "operator (argumentBit n (qubit_argument (inputQubits g) 0) s)
                     (argumentBit n (qubit_argument (inputQubits g) 1) s) = of_bool b"
    by (simp only: op b_def)
  then have res: "operator (argumentBit n (qubit_argument (inputQubits g) 0) s)
                    (argumentBit n (qubit_argument (inputQubits g) (Suc 0)) s) = of_bool b"
    by simp
  have target: "js_or (js_and (int s) (js_not (js_shl 1 (int k)))) (js_shl (of_bool b) (int k))
                = int t"
    unfolding t_def logic_target_def by (rule target_index_eq [OF k(1) n(2) dom(1)])
  have "t < 2 ^ n"
    unfolding t_def logic_target_def by (rule set_unset_less [OF k(1) dom(1)])
  then have wr: "write_at (replicate (2 ^ n) (Complex_new 0 0)) (int t) (Complex_new 1 0)
                    = Return ((replicate (2 ^ n) (Complex_new 0 0))[t := Complex_new 1 0])"
    by (simp add: write_at_def)
  have "classical_logic operator this g
        = Return (this\<lparr>state := (state this)\<lparr>amplitudes :=
            (replicate (2 ^ n) (Complex_new 0 0))[t := Complex_new 1 0]\<rparr>\<rparr>)"
    by (simp add: classical_logic_def n(1) found res k(2) target
          wr Let_def split del: split_of_bool)
  then show ?thesis
    by (simp only: t_def b_def b1_def b2_def k_def)
qed

text \<open>
  C10, as the specification states it, is false: \<^verbatim>\<open>applyClassicalGate\<close> never checks the
  qubits of the gate. On two qubits in the basis state of index 3, the gate AND with input
  qubits 0 and 1 and output qubit 2 finds the dominant index 3, shifts by \<open>-1\<close>, which is a
  shift by 31, and computes the target index \<open>-2147483645\<close>. The write at that index sets a
  property of the array and no element, so the new amplitude vector is all zero: its
  squared norm is 0, and it is no basis state.
\<close>

theorem classical_logic_output_qubit_counterexample:
  "find_dominant [0..<4]
     [Complex_new 0 0, Complex_new 0 0, Complex_new 0 0, Complex_new 1 0] = Return 3
   \<and> applyClassicalGate
       ((QuantumCircuit_new 2)
          \<lparr>state := \<lparr>numQubits = 2, dimension = 4,
                      amplitudes = [Complex_new 0 0, Complex_new 0 0, Complex_new 0 0,
                                    Complex_new 1 0]\<rparr>\<rparr>)
       \<lparr>classical_name = ''AND'', inputQubits = [0, 1], outputQubit = 2, position = None\<rparr>
     = Return ((QuantumCircuit_new 2)
          \<lparr>state := \<lparr>numQubits = 2, dimension = 4,
                      amplitudes = [Complex_new 0 0, Complex_new 0 0, Complex_new 0 0,
                                    Complex_new 0 0]\<rparr>\<rparr>)
   \<and> squared_norm [Complex_new 0 0, Complex_new 0 0, Complex_new 0 0, Complex_new 0 0] = 0"
proof -
  let ?amps = "[Complex_new 0 0, Complex_new 0 0, Complex_new 0 0, Complex_new 1 0]"
  have m: "Complex_magnitude (Complex_new 1 0) > 9 / 10"
    "\<not> Complex_magnitude (Complex_new 0 0) > 9 / 10"
    by (simp_all add: Complex_magnitude_def)
  have found: "find_dominant [0..<4] ?amps = Return 3"
    using m by (simp add: upt_rec element_def)
  have bits: "qubitBit 2 0 3 = 1" "qubitBit 2 1 3 = 1"
    by (simp_all add: qubitBit_def js_and_def js_shr_def toInt32_def)
  have index: "js_or (js_and 3 (js_not (js_shl 1 (- 1)))) (js_shl (js_and 1 1) (- 1))
               = - 2147483645"
    by (simp add: js_or_def js_and_def js_not_def js_shl_def toInt32_def)
  have zeros: "replicate 4 (Complex_new 0 0)
               = [Complex_new 0 0, Complex_new 0 0, Complex_new 0 0, Complex_new 0 0]"
    by (simp add: numeral_eq_Suc)
  have zero: "squared_norm [Complex_new 0 0, Complex_new 0 0, Complex_new 0 0, Complex_new 0 0]
              = 0"
    by (simp add: squared_norm_def Complex_magnitude_def)
  have "applyClassicalGate
       ((QuantumCircuit_new 2)\<lparr>state := \<lparr>numQubits = 2, dimension = 4, amplitudes = ?amps\<rparr>\<rparr>)
       \<lparr>classical_name = ''AND'', inputQubits = [0, 1], outputQubit = 2, position = None\<rparr>
     = Return ((QuantumCircuit_new 2)
          \<lparr>state := \<lparr>numQubits = 2, dimension = 4,
                      amplitudes = [Complex_new 0 0, Complex_new 0 0, Complex_new 0 0,
                                    Complex_new 0 0]\<rparr>\<rparr>)"
    by (simp add: applyClassicalGate_def classical_logic_def qubit_argument_def
          argumentBit_def found bits index write_at_def Let_def zeros)
  with found zero show ?thesis
    by simp
qed

text \<open>
  C10, amended with the precondition that the output qubit lies in the register: let the
  register have \<open>n \<le> 31\<close> qubits and one amplitude per basis index, let the gate be the
  classical AND or OR with an output qubit \<open>0 \<le> outputQubit < n\<close>, and let \<open>s\<close> be the first
  index whose amplitude has a magnitude above 0.9. Then the gate returns, and the new
  amplitude vector is exactly a basis state: \<open>Complex(1, 0)\<close> at the target index \<open>t\<close>, which
  is \<open>s\<close> with the bit of the output qubit replaced by the AND, or the OR, of the two bits
  the gate reads for its input qubits, and \<open>Complex(0, 0)\<close> at every other index. Phase and
  magnitude of the dominant amplitude and all other amplitudes are dropped, and the total
  squared norm is exactly 1. The bit read for an input qubit \<open>q\<close> of the register is the bit
  of \<open>s\<close> at place \<open>n - 1 - q\<close>; input qubits outside the register, or missing, still give a
  bit, and the result is a basis state all the same.
\<close>

theorem classical_logic_gives_basis_state:
  assumes n: "numQubits (state this) = n" "n \<le> 31" "length (amplitudes (state this)) = 2 ^ n"
    and g: "classical_name g = ''AND'' \<or> classical_name g = ''OR''"
    and out: "0 \<le> outputQubit g" "outputQubit g < int n"
    and dom: "s < 2 ^ n" "Complex_magnitude (amplitudes (state this) ! s) > 9 / 10"
      "\<And>i. i < s \<Longrightarrow> \<not> Complex_magnitude (amplitudes (state this) ! i) > 9 / 10"
    and bits: "bit1 \<longleftrightarrow> argumentBit n (qubit_argument (inputQubits g) 0) s = 1"
      "bit2 \<longleftrightarrow> argumentBit n (qubit_argument (inputQubits g) 1) s = 1"
    and t: "t = logic_target
                  (if classical_name g = ''AND'' then bit1 \<and> bit2 else bit1 \<or> bit2)
                  (n - 1 - nat (outputQubit g)) s"
  shows "(\<exists>this'. applyClassicalGate this g = Return this'
           \<and> t < 2 ^ n
           \<and> amplitudes (state this') = (replicate (2 ^ n) (Complex_new 0 0))[t := Complex_new 1 0]
           \<and> squared_norm (amplitudes (state this')) = 1)
         \<and> (\<forall>q. 0 \<le> q \<and> q < int n \<longrightarrow> 
               (argumentBit n (Some q) s = 1 \<longleftrightarrow> bit s (n - 1 - nat q)))"
proof -
  have k: "n - 1 - nat (outputQubit g) < n"
    using out by auto
  have less: "t < 2 ^ n"
    unfolding t logic_target_def by (rule set_unset_less [OF k dom(1)])
  have "applyClassicalGate this g
        = Return (this\<lparr>state := (state this)\<lparr>amplitudes :=
            (replicate (2 ^ n) (Complex_new 0 0))[t := Complex_new 1 0]\<rparr>\<rparr>)"
  proof (cases "classical_name g = ''AND''")
    case True
    with classical_logic_basis [OF n out dom, of js_and "(\<and>)"] show ?thesis
      by (simp add: applyClassicalGate_def js_and_of_bool t bits)
  next
    case False
    with g have "classical_name g = ''OR''"
      by simp
    with classical_logic_basis [OF n out dom, of js_or "(\<or>)"] show ?thesis
      by (simp add: applyClassicalGate_def js_or_of_bool t bits)
  qed
  with less have first: "\<exists>this'. applyClassicalGate this g = Return this'
           \<and> t < 2 ^ n
           \<and> amplitudes (state this') = (replicate (2 ^ n) (Complex_new 0 0))[t := Complex_new 1 0]
           \<and> squared_norm (amplitudes (state this')) = 1"
    by (simp add: squared_norm_basis)
  have "argumentBit n (Some q) s = 1 \<longleftrightarrow> bit s (n - 1 - nat q)" if "0 \<le> q \<and> q < int n" for q
    using qubitBit_eq_bit [of q n s] that n(2) dom(1) by (simp add: argumentBit_def)
  with first show ?thesis
    by blast
qed

theorem classical_logic_gives_basis_state_witness:
  "numQubits (state ((QuantumCircuit_new 2)
      \<lparr>state := \<lparr>numQubits = 2, dimension = 4,
                  amplitudes = [Complex_new 0 0, Complex_new 0 0, Complex_new 0 (- 1),
                                Complex_new 0 0]\<rparr>\<rparr>)) = 2
   \<and> Complex_magnitude (Complex_new 0 (- 1)) > 9 / 10
   \<and> \<not> Complex_magnitude (Complex_new 0 0) > 9 / 10
   \<and> argumentBit 2 (qubit_argument [0, 1] 0) 2 = 1
   \<and> argumentBit 2 (qubit_argument [0, 1] 1) 2 \<noteq> 1
   \<and> (\<exists>this'. applyClassicalGate
                 ((QuantumCircuit_new 2)
                    \<lparr>state := \<lparr>numQubits = 2, dimension = 4,
                                amplitudes = [Complex_new 0 0, Complex_new 0 0,
                                              Complex_new 0 (- 1), Complex_new 0 0]\<rparr>\<rparr>)
                 \<lparr>classical_name = ''OR'', inputQubits = [0, 1], outputQubit = 1,
                  position = None\<rparr> = Return this'
          \<and> amplitudes (state this')
              = [Complex_new 0 0, Complex_new 0 0, Complex_new 0 0, Complex_new 1 0]
          \<and> squared_norm (amplitudes (state this')) = 1)"
proof -
  let ?amps = "[Complex_new 0 0, Complex_new 0 0, Complex_new 0 (- 1), Complex_new 0 0]"
  let ?c = "(QuantumCircuit_new 2)\<lparr>state := \<lparr>numQubits = 2, dimension = 4, amplitudes = ?amps\<rparr>\<rparr>"
  let ?g = "\<lparr>classical_name = ''OR'', inputQubits = [0, 1], outputQubit = 1, position = None\<rparr>"
  have m: "Complex_magnitude (Complex_new 0 (- 1)) > 9 / 10"
    "\<not> Complex_magnitude (Complex_new 0 0) > 9 / 10"
    by (simp_all add: Complex_magnitude_def)
  have low: "\<not> Complex_magnitude (amplitudes (state ?c) ! i) > 9 / 10" if "i < 2" for i
    using that m(2) by (cases i) (simp_all add: less_Suc_eq)
  have a: "argumentBit 2 (qubit_argument [0, 1] 0) 2 = 1"
    "argumentBit 2 (qubit_argument [0, 1] 1) 2 \<noteq> 1"
    by (simp_all add: argumentBit_def qubit_argument_def qubitBit_def js_and_def js_shr_def
          toInt32_def)
  have b: "True \<longleftrightarrow> argumentBit 2 (qubit_argument (inputQubits ?g) 0) 2 = 1"
    "False \<longleftrightarrow> argumentBit 2 (qubit_argument (inputQubits ?g) 1) 2 = 1"
    using a by simp_all
  have t: "(3::nat) = logic_target
                  (if classical_name ?g = ''AND'' then True \<and> False else True \<or> False)
                  (2 - 1 - nat (outputQubit ?g)) 2"
    by (simp add: logic_target_def set_bit_eq bit_iff_odd)
  have h: "numQubits (state ?c) = 2" "(2::nat) \<le> 31" "length (amplitudes (state ?c)) = 2 ^ 2"
    "classical_name ?g = ''AND'' \<or> classical_name ?g = ''OR''"
    "0 \<le> outputQubit ?g" "outputQubit ?g < int 2" "(2::nat) < 2 ^ 2"
    "Complex_magnitude (amplitudes (state ?c) ! 2) > 9 / 10"
    using m(1) by simp_all
  have "\<exists>this'. applyClassicalGate ?c ?g = Return this'
           \<and> (3::nat) < 2 ^ 2
           \<and> amplitudes (state this') = (replicate (2 ^ 2) (Complex_new 0 0))[3 := Complex_new 1 0]
           \<and> squared_norm (amplitudes (state this')) = 1"
    using classical_logic_gives_basis_state [OF h low b t] by blast
  then show ?thesis
    using m a by (simp add: numeral_eq_Suc)
qed

section \<open>Embedding a gate in the full register\<close>

lemma log2_exact_power: "log2_exact (2 ^ k) = Some k"
proof (induction k)
  case 0
  show ?case by (simp add: log2_exact.simps)
next
  case (Suc k)
  have "(2::nat) ^ Suc k \<noteq> 1"
    by simp
  moreover have "(2::nat) ^ Suc k div 2 = 2 ^ k"
    by simp
  ultimately show ?case
    using Suc by (subst log2_exact.simps) simp
qed

lemma log2_exact_Some: "log2_exact n = Some k \<Longrightarrow> n = 2 ^ k"
proof (induction n arbitrary: k rule: log2_exact.induct)
  case (1 n)
  show ?case
  proof (cases "n = 0 \<or> n = 1 \<or> n mod 2 \<noteq> 0")
    case True
    with "1.prems" show ?thesis
      by (auto simp: log2_exact.simps [of n] split: if_splits)
  next
    case False
    with "1.prems" obtain k' where k': "log2_exact (n div 2) = Some k'" "k = Suc k'"
      by (auto simp: log2_exact.simps [of n])
    from False "1.IH" [OF _ _ _ k'(1)] have "n div 2 = 2 ^ k'"
      by simp
    with False k'(2) show ?thesis
      by auto
  qed
qed

lemma log2_exact_iff: "log2_exact n = Some k \<longleftrightarrow> n = 2 ^ k"
  using log2_exact_Some log2_exact_power by blast
























section \<open>Construction from amplitudes\<close>

lemma foldl_add_sum_list:
  fixes f :: "'a \<Rightarrow> real"
  shows "foldl (\<lambda>acc x. acc + f x) a xs = a + sum_list (map f xs)"
  by (induction xs arbitrary: a) simp_all

lemma vector_norm_sq:
  "(vector_norm amps)\<^sup>2 = squared_norm amps"
proof -
  have "foldl (\<lambda>acc amp. acc + Complex_magnitude amp * Complex_magnitude amp) 0 amps
        = (\<Sum>amp\<leftarrow>amps. (Complex_magnitude amp)\<^sup>2)"
    by (simp add: foldl_add_sum_list power2_eq_square)
  also have "\<dots> = squared_norm amps"
    by (simp add: squared_norm_def sum_list_sum_nth atLeast0LessThan)
  finally have "vector_norm amps = sqrt (squared_norm amps)"
    by (simp add: vector_norm_def)
  moreover have "0 \<le> squared_norm amps"
    by (simp add: squared_norm_def sum_nonneg)
  ultimately show ?thesis
    by simp
qed

lemma input_norm_clones:
  "input_norm values
   = vector_norm (map (\<lambda>amp. case amp of ComplexValue c \<Rightarrow> Complex_clone c
                                          | Number x \<Rightarrow> Complex_new x 0) values)"
proof -
  have "(case amp of ComplexValue c \<Rightarrow> Complex_magnitude c | Number x \<Rightarrow> \<bar>x\<bar>)
        = Complex_magnitude (case amp of ComplexValue c \<Rightarrow> Complex_clone c
                                        | Number x \<Rightarrow> Complex_new x 0)" for amp
    by (cases amp) (simp_all add: Complex_magnitude_def Complex_clone_def)
  then show ?thesis
    by (simp add: input_norm_def vector_norm_def foldl_add_sum_list comp_def Let_def)
qed

lemma normalize_unit:
  assumes "\<not> vector_norm (amplitudes st) < 1 / 10 ^ 10"
  shows "\<exists>amps. QuantumState_normalize st = Return (st\<lparr>amplitudes := amps\<rparr>)
           \<and> map_outcome (\<lambda>amp. Complex_divide amp (Complex_new (vector_norm (amplitudes st)) 0))
                 (amplitudes st) = Return amps
           \<and> length amps = length (amplitudes st) \<and> squared_norm amps = 1"
proof -
  let ?N = "vector_norm (amplitudes st)"
  let ?g = "\<lambda>a. Complex_new (real_js a / ?N) (imag_js a / ?N)"
  have "(0::real) < 1 / 10 ^ 10"
    by simp
  with assms have pos: "0 < ?N"
    by linarith
  then have N: "?N \<noteq> 0"
    by simp
  have m: "map_outcome (\<lambda>amp. Complex_divide amp (Complex_new ?N 0)) (amplitudes st)
           = Return (map ?g (amplitudes st))"
    by (rule map_outcome_Return) (simp add: Complex_divide_real [OF N])
  have "squared_norm (map ?g (amplitudes st))
        = (\<Sum>i<length (amplitudes st). (Complex_magnitude (amplitudes st ! i))\<^sup>2 / (?N * ?N))"
    unfolding squared_norm_def
    by (simp add: magnitude_sq_scaled)
  also have "\<dots> = squared_norm (amplitudes st) / (?N * ?N)"
    by (simp add: squared_norm_def sum_divide_distrib)
  also have "\<dots> = 1"
    using N by (simp add: vector_norm_sq [symmetric] power2_eq_square)
  finally have "squared_norm (map ?g (amplitudes st)) = 1" .
  with m assms show ?thesis
    by (simp add: QuantumState_normalize_def Let_def)
qed

lemma not_power_of_two: "log2_exact n = None \<longleftrightarrow> (\<nexists>k. n = 2 ^ k)"
  using log2_exact_iff [of n] by (cases "log2_exact n") auto

lemma fromAmplitudes_value:
  "(\<nexists>k. length values = 2 ^ k) \<Longrightarrow> fromAmplitudes values = Throw InvalidDimension"
  "length values = 2 ^ k \<Longrightarrow> input_norm values < 1 / 10 ^ 10
     \<Longrightarrow> fromAmplitudes values = Throw ZeroState"
  "length values = 2 ^ k \<Longrightarrow> \<not> input_norm values < 1 / 10 ^ 10
     \<Longrightarrow> \<exists>amps. fromAmplitudes values
                  = Return \<lparr>numQubits = k, dimension = 2 ^ k, amplitudes = amps\<rparr>
           \<and> length amps = length values \<and> squared_norm amps = 1"
proof -
  show "fromAmplitudes values = Throw InvalidDimension" if "\<nexists>k. length values = 2 ^ k"
  proof -
    from that have "log2_exact (length values) = None"
      using not_power_of_two [of "length values"] by blast
    then show ?thesis
      by (simp add: fromAmplitudes_def)
  qed
  show "fromAmplitudes values = Throw ZeroState"
    if "length values = 2 ^ k" "input_norm values < 1 / 10 ^ 10"
    using that by (simp add: fromAmplitudes_def log2_exact_power)
  show "\<exists>amps. fromAmplitudes values
                  = Return \<lparr>numQubits = k, dimension = 2 ^ k, amplitudes = amps\<rparr>
           \<and> length amps = length values \<and> squared_norm amps = 1"
    if len: "length values = 2 ^ k" and big: "\<not> input_norm values < 1 / 10 ^ 10"
  proof -
    let ?cl = "map (\<lambda>amp. case amp of ComplexValue c \<Rightarrow> Complex_clone c
                                       | Number x \<Rightarrow> Complex_new x 0) values"
    let ?st = "(QuantumState_new k)\<lparr>amplitudes := ?cl\<rparr>"
    have "\<not> vector_norm (amplitudes ?st) < 1 / 10 ^ 10"
      using big by (simp add: input_norm_clones)
    from normalize_unit [OF this] obtain amps
      where "QuantumState_normalize ?st = Return (?st\<lparr>amplitudes := amps\<rparr>)"
        "length amps = length values" "squared_norm amps = 1"
      by auto
    with len big show ?thesis
      by (simp add: fromAmplitudes_def log2_exact_power QuantumState_new_def)
  qed
qed

end
